theory Spec2Isabelle
  imports Complex_Main "HOL-Library.Char_ord" "HOL-Library.List_Lexorder"
begin

section \<open>JavaScript values used by the cash book\<close>

text \<open>
  Strings are byte lists holding the UTF-8 encoding of the JavaScript string; the relational
  operators on strings are the lexicographic order on these lists. A number that comes
  out of parsing user text is a \<open>jsnum\<close>: it may be \<open>NaN\<close> or infinite, and every
  comparison with \<open>NaN\<close> is false.
\<close>

datatype jsnum = NaN | NegInf | Fin real | PosInf

fun js_le :: "jsnum \<Rightarrow> jsnum \<Rightarrow> bool" where
  "js_le NaN _ = False"
| "js_le _ NaN = False"
| "js_le NegInf _ = True"
| "js_le _ PosInf = True"
| "js_le (Fin a) (Fin b) = (a \<le> b)"
| "js_le _ _ = False"

text \<open>
  The numbers of the ledger (amounts, balances, identifiers) are integers held in IEEE 754
  doubles. A sum or difference of two of them is the exact result rounded to the nearest
  double, ties to the even mantissa: every integer of magnitude up to 2 to the power 53
  is a double, and beyond it the doubles between two neighbouring powers of two are the
  multiples of 2 to the power \<open>bit_length - 53\<close>. The overflow to infinity, beyond 2 to the
  power 1024, is outside the model.
\<close>

fun bit_length :: "nat \<Rightarrow> nat" where
  "bit_length n = (if n = 0 then 0 else Suc (bit_length (n div 2)))"

declare bit_length.simps [simp del]

definition double_round :: "int \<Rightarrow> int" where
  "double_round x =
     (if \<bar>x\<bar> \<le> 2 ^ 53 then x
      else (let q = 2 ^ (bit_length (nat \<bar>x\<bar>) - 53);
                m = x div q;
                r = x mod q
            in if 2 * r < q then m * q
               else if 2 * r > q then (m + 1) * q
               else if even m then m * q
               else (m + 1) * q))"

definition js_add :: "int \<Rightarrow> int \<Rightarrow> int" where
  "js_add x y = double_round (x + y)"

definition js_sub :: "int \<Rightarrow> int \<Rightarrow> int" where
  "js_sub x y = double_round (x - y)"

text \<open>
  The built-ins of the JavaScript host that the code calls. They are parameters of the
  model: \<open>String.prototype.toLowerCase\<close>, \<open>String.prototype.trim\<close>, \<open>parseFloat\<close>, the
  string-to-number conversion of the \<open>==\<close> operator, the DOM-based \<open>escapeHtml\<close> of the
  application, the text that a template literal makes of a member every object inherits
  from \<open>Object.prototype\<close> (for \<open>toString\<close> the source text of that function), and the
  text it makes of a number beyond 2 to the power 53, whose digits are the shortest that
  identify the double.
\<close>

record host =
  toLowerCase :: "string \<Rightarrow> string"
  trim :: "string \<Rightarrow> string"
  parseFloat :: "string \<Rightarrow> jsnum"
  toNumber :: "string \<Rightarrow> jsnum"
  escapeHtml :: "string \<Rightarrow> string"
  inherited_text :: "string \<Rightarrow> string"
  large_number_text :: "int \<Rightarrow> string"

text \<open>\<open>s.includes(k)\<close>: \<open>k\<close> occurs in \<open>s\<close> as a contiguous block.\<close>

fun str_includes :: "string \<Rightarrow> string \<Rightarrow> bool" where
  "str_includes [] k = (k = [])"
| "str_includes (c # s) k = (take (length k) (c # s) = k \<or> str_includes s k)"

text \<open>\<open>x || 0\<close> on a number: a falsy number (zero) is replaced by zero.\<close>

definition or_zero :: "int \<Rightarrow> int" where
  "or_zero x = (if x = 0 then 0 else x)"

text \<open>
  \<open>n == s\<close> for a number-or-null \<open>n\<close> and a string \<open>s\<close>: the string is converted to a
  number and compared; \<open>null\<close> is loosely equal to no string.
\<close>

fun loose_eq :: "host \<Rightarrow> int option \<Rightarrow> string \<Rightarrow> bool" where
  "loose_eq h None s = False"
| "loose_eq h (Some n) s = (toNumber h s = Fin (of_int n))"

section \<open>Ledger data\<close>

text \<open>
  A transaction as \<open>loadTransactionsFromAPI\<close> builds it. The field \<open>type\<close> is the string
  sent by the server, \<open>client\<close> and \<open>taxType\<close> are the empty string when the server sent
  none, the two account references are \<open>null\<close> (here \<open>None\<close>) when unset.
\<close>

record transaction =
  tx_id :: string
  date :: string
  type :: string
  description :: string
  client :: string
  amount :: int
  account_subject_id :: "int option"
  sub_account_id :: "int option"
  taxType :: string

record sub_account =
  sub_id :: int
  sub_name :: string

record account_subject =
  subject_id :: int
  subject_name :: string
  sub_accounts :: "sub_account list"

record settings =
  openingBalance :: int
  exportFormat :: string

record book =
  book_id :: int
  businessName :: string
  accountName :: string
  book_settings :: settings
  transactions :: "transaction list"

text \<open>
  The application state the ledger code reads and writes: the books, the identifier of
  the selected book (\<open>None\<close> is \<open>null\<close>), the plan of the subscription object (\<open>None\<close> while
  \<open>this.subscription\<close> is \<open>null\<close>; an object without a plan has the empty plan), and the
  account subjects of the selected book. An identifier is held as a number or as the
  decimal text of that number, which \<open>==\<close> identifies; the model holds the number.
\<close>

record app =
  books :: "book list"
  currentBookId :: "int option"
  subscription_plan :: "string option"
  accountSubjects :: "account_subject list"

definition getCurrentBook :: "app \<Rightarrow> book option" where
  "getCurrentBook a = find (\<lambda>b. Some (book_id b) = currentBookId a) (books a)"

definition getCurrentTransactions :: "app \<Rightarrow> transaction list" where
  "getCurrentTransactions a = (case getCurrentBook a of None \<Rightarrow> [] | Some b \<Rightarrow> transactions b)"

definition getCurrentSettings :: "app \<Rightarrow> settings" where
  "getCurrentSettings a =
     (case getCurrentBook a of
        None \<Rightarrow> \<lparr>openingBalance = 0, exportFormat = []\<rparr>
      | Some b \<Rightarrow> book_settings b)"

section \<open>Filter engine (renderTransactions, first half)\<close>

text \<open>The values of the six filter controls, as read from the page.\<close>

record filter_inputs =
  filter_start_date :: string
  filter_end_date :: string
  filter_keyword :: string
  filter_min_amount :: string
  filter_max_amount :: string
  filter_account_subject :: string

definition filterTransactions ::
  "host \<Rightarrow> filter_inputs \<Rightarrow> transaction list \<Rightarrow> transaction list" where
  "filterTransactions h f ts =
     (let startDate = filter_start_date f;
          endDate = filter_end_date f;
          keyword = trim h (toLowerCase h (filter_keyword f));
          minAmount = filter_min_amount f;
          maxAmount = filter_max_amount f;
          accountSubjectId = filter_account_subject f;
          filtered1 =
            (if startDate \<noteq> [] \<and> endDate \<noteq> []
               then filter (\<lambda>t. date t \<ge> startDate \<and> date t \<le> endDate) ts
             else if startDate \<noteq> [] then filter (\<lambda>t. date t \<ge> startDate) ts
             else if endDate \<noteq> [] then filter (\<lambda>t. date t \<le> endDate) ts
             else ts);
          filtered2 =
            (if keyword \<noteq> []
               then filter (\<lambda>t. str_includes (toLowerCase h (description t)) keyword \<or>
                                 str_includes (toLowerCase h (client t)) keyword) filtered1
             else filtered1);
          filtered3 =
            (if minAmount \<noteq> [] \<or> maxAmount \<noteq> []
               then (let min = (if minAmount \<noteq> [] then parseFloat h minAmount else Fin 0);
                         max = (if maxAmount \<noteq> [] then parseFloat h maxAmount else PosInf)
                     in filter (\<lambda>t. js_le min (Fin (of_int (amount t))) \<and>
                                      js_le (Fin (of_int (amount t))) max) filtered2)
             else filtered2);
          filtered4 =
            (if accountSubjectId \<noteq> []
               then filter (\<lambda>t. loose_eq h (account_subject_id t) accountSubjectId) filtered3
             else filtered3)
      in filtered4)"

section \<open>Balance accumulator (renderTransactions, second half, and updateTotals)\<close>

text \<open>The three counters the row callback of \<open>renderTransactions\<close> updates.\<close>

record running =
  balance :: int
  totalIncome :: int
  totalExpense :: int

text \<open>
  One table row: the cells that depend on the ledger arithmetic. A blank income or
  expense cell is \<open>None\<close>.
\<close>

record row =
  row_tx :: transaction
  row_income :: "int option"
  row_expense :: "int option"
  row_balance :: int

definition render_step :: "running \<Rightarrow> transaction \<Rightarrow> running" where
  "render_step s t =
     (let income = (if type t = ''income'' then amount t else 0);
          expense = (if type t = ''expense'' then amount t else 0)
      in \<lparr>balance = js_add (balance s) (js_sub income expense),
          totalIncome = js_add (totalIncome s) income,
          totalExpense = js_add (totalExpense s) expense\<rparr>)"

definition render_row :: "running \<Rightarrow> transaction \<Rightarrow> row" where
  "render_row s' t =
     (let income = (if type t = ''income'' then amount t else 0);
          expense = (if type t = ''expense'' then amount t else 0)
      in \<lparr>row_tx = t,
          row_income = (if income > 0 then Some income else None),
          row_expense = (if expense > 0 then Some expense else None),
          row_balance = balance s'\<rparr>)"

fun render_rows ::
  "running \<Rightarrow> transaction list \<Rightarrow> row list \<times> running" where
  "render_rows s [] = ([], s)"
| "render_rows s (t # ts) =
     (let s' = render_step s t;
          r = render_row s' t;
          (rs, s'') = render_rows s' ts
      in (r # rs, s''))"

text \<open>What \<open>updateTotals\<close> writes into the three total fields.\<close>

record totals =
  total_income :: int
  total_expense :: int
  final_balance :: int

definition updateTotals :: "transaction list \<Rightarrow> int \<Rightarrow> totals" where
  "updateTotals ts finalBalance =
     \<lparr>total_income =
        foldl (\<lambda>sum t. js_add sum (amount t)) 0 (filter (\<lambda>t. type t = ''income'') ts),
      total_expense =
        foldl (\<lambda>sum t. js_add sum (amount t)) 0 (filter (\<lambda>t. type t = ''expense'') ts),
      final_balance = finalBalance\<rparr>"

text \<open>
  The visible result of \<open>renderTransactions\<close>: the table body, whether the empty-state
  banner is shown, and the totals. The status line and the markup around the cells are
  presentation and are left out.
\<close>

record view =
  tbody :: "row list"
  empty_state_shown :: bool
  shown_totals :: totals

definition renderTransactions ::
  "host \<Rightarrow> app \<Rightarrow> filter_inputs \<Rightarrow> view" where
  "renderTransactions h a f =
     (let filtered = filterTransactions h f (getCurrentTransactions a)
      in if length filtered = 0
         then \<lparr>tbody = [], empty_state_shown = True, shown_totals = updateTotals [] 0\<rparr>
         else (let settings = getCurrentSettings a;
                   start = \<lparr>balance = or_zero (openingBalance settings),
                            totalIncome = 0, totalExpense = 0\<rparr>;
                   (rows, fin) = render_rows start filtered
               in \<lparr>tbody = rows, empty_state_shown = False,
                   shown_totals = updateTotals filtered (balance fin)\<rparr>))"

section \<open>Export formatter\<close>

text \<open>
  The fixed texts of the CSV dialects, as UTF-8 bytes. \<open>BOM\<close> is U+FEFF. The four headers
  are the first lines of \<open>generateBasicCSV\<close>, \<open>generateMFCloudCSV\<close>, \<open>generateFreeeCSV\<close>
  and \<open>generateYayoiCSV\<close>, each ending with a line feed.
\<close>

definition BOM :: string where
  "BOM =
     [CHR 0xEF, CHR 0xBB, CHR 0xBF]"

definition header_basic :: string where
  "header_basic =
     [CHR 0xE5, CHR 0x8F, CHR 0x96, CHR 0xE5, CHR 0xBC, CHR 0x95, CHR 0xE6, CHR 0x97,
      CHR 0xA5] @ '','' @ [CHR 0xE5, CHR 0x8C, CHR 0xBA, CHR 0xE5, CHR 0x88, CHR 0x86] @
      '','' @ [CHR 0xE5, CHR 0x8F, CHR 0x96, CHR 0xE5, CHR 0xBC, CHR 0x95, CHR 0xE5,
      CHR 0x86, CHR 0x85, CHR 0xE5, CHR 0xAE, CHR 0xB9] @ '','' @ [CHR 0xE5, CHR 0x8F,
      CHR 0x96, CHR 0xE5, CHR 0xBC, CHR 0x95, CHR 0xE5, CHR 0x85, CHR 0x88] @ '','' @
      [CHR 0xE5, CHR 0x8B, CHR 0x98, CHR 0xE5, CHR 0xAE, CHR 0x9A, CHR 0xE7, CHR 0xA7,
      CHR 0x91, CHR 0xE7, CHR 0x9B, CHR 0xAE] @ '','' @ [CHR 0xE8, CHR 0xA3, CHR 0x9C,
      CHR 0xE5, CHR 0x8A, CHR 0xA9, CHR 0xE7, CHR 0xA7, CHR 0x91, CHR 0xE7, CHR 0x9B,
      CHR 0xAE] @ '','' @ [CHR 0xE5, CHR 0x85, CHR 0xA5, CHR 0xE9, CHR 0x87, CHR 0x91] @
      '','' @ [CHR 0xE5, CHR 0x87, CHR 0xBA, CHR 0xE9, CHR 0x87, CHR 0x91] @ '','' @
      [CHR 0xE6, CHR 0xAE, CHR 0x8B, CHR 0xE9, CHR 0xAB, CHR 0x98] @ '','' @ [CHR 0xE6,
      CHR 0xB6, CHR 0x88, CHR 0xE8, CHR 0xB2, CHR 0xBB, CHR 0xE7, CHR 0xA8, CHR 0x8E,
      CHR 0xE5, CHR 0x8C, CHR 0xBA, CHR 0xE5, CHR 0x88, CHR 0x86, CHR 0x0A]"

definition header_mf :: string where
  "header_mf =
     [CHR 0xE5, CHR 0x8F, CHR 0x96, CHR 0xE5, CHR 0xBC, CHR 0x95] @ ''No,'' @ [CHR 0xE5,
      CHR 0x8F, CHR 0x96, CHR 0xE5, CHR 0xBC, CHR 0x95, CHR 0xE6, CHR 0x97, CHR 0xA5] @
      '','' @ [CHR 0xE5, CHR 0x80, CHR 0x9F, CHR 0xE6, CHR 0x96, CHR 0xB9, CHR 0xE5,
      CHR 0x8B, CHR 0x98, CHR 0xE5, CHR 0xAE, CHR 0x9A, CHR 0xE7, CHR 0xA7, CHR 0x91,
      CHR 0xE7, CHR 0x9B, CHR 0xAE] @ '','' @ [CHR 0xE5, CHR 0x80, CHR 0x9F, CHR 0xE6,
      CHR 0x96, CHR 0xB9, CHR 0xE8, CHR 0xA3, CHR 0x9C, CHR 0xE5, CHR 0x8A, CHR 0xA9,
      CHR 0xE7, CHR 0xA7, CHR 0x91, CHR 0xE7, CHR 0x9B, CHR 0xAE] @ '','' @ [CHR 0xE5,
      CHR 0x80, CHR 0x9F, CHR 0xE6, CHR 0x96, CHR 0xB9, CHR 0xE9, CHR 0x83, CHR 0xA8,
      CHR 0xE9, CHR 0x96, CHR 0x80] @ '','' @ [CHR 0xE5, CHR 0x80, CHR 0x9F, CHR 0xE6,
      CHR 0x96, CHR 0xB9, CHR 0xE7, CHR 0xA8, CHR 0x8E, CHR 0xE5, CHR 0x8C, CHR 0xBA,
      CHR 0xE5, CHR 0x88, CHR 0x86] @ '','' @ [CHR 0xE5, CHR 0x80, CHR 0x9F, CHR 0xE6,
      CHR 0x96, CHR 0xB9, CHR 0xE9, CHR 0x87, CHR 0x91, CHR 0xE9, CHR 0xA1, CHR 0x8D] @
      '','' @ [CHR 0xE5, CHR 0x80, CHR 0x9F, CHR 0xE6, CHR 0x96, CHR 0xB9, CHR 0xE7,
      CHR 0xA8, CHR 0x8E, CHR 0xE9, CHR 0xA1, CHR 0x8D] @ '','' @ [CHR 0xE8, CHR 0xB2,
      CHR 0xB8, CHR 0xE6, CHR 0x96, CHR 0xB9, CHR 0xE5, CHR 0x8B, CHR 0x98, CHR 0xE5,
      CHR 0xAE, CHR 0x9A, CHR 0xE7, CHR 0xA7, CHR 0x91, CHR 0xE7, CHR 0x9B, CHR 0xAE] @
      '','' @ [CHR 0xE8, CHR 0xB2, CHR 0xB8, CHR 0xE6, CHR 0x96, CHR 0xB9, CHR 0xE8,
      CHR 0xA3, CHR 0x9C, CHR 0xE5, CHR 0x8A, CHR 0xA9, CHR 0xE7, CHR 0xA7, CHR 0x91,
      CHR 0xE7, CHR 0x9B, CHR 0xAE] @ '','' @ [CHR 0xE8, CHR 0xB2, CHR 0xB8, CHR 0xE6,
      CHR 0x96, CHR 0xB9, CHR 0xE9, CHR 0x83, CHR 0xA8, CHR 0xE9, CHR 0x96, CHR 0x80] @
      '','' @ [CHR 0xE8, CHR 0xB2, CHR 0xB8, CHR 0xE6, CHR 0x96, CHR 0xB9, CHR 0xE7,
      CHR 0xA8, CHR 0x8E, CHR 0xE5, CHR 0x8C, CHR 0xBA, CHR 0xE5, CHR 0x88, CHR 0x86] @
      '','' @ [CHR 0xE8, CHR 0xB2, CHR 0xB8, CHR 0xE6, CHR 0x96, CHR 0xB9, CHR 0xE9,
      CHR 0x87, CHR 0x91, CHR 0xE9, CHR 0xA1, CHR 0x8D] @ '','' @ [CHR 0xE8, CHR 0xB2,
      CHR 0xB8, CHR 0xE6, CHR 0x96, CHR 0xB9, CHR 0xE7, CHR 0xA8, CHR 0x8E, CHR 0xE9,
      CHR 0xA1, CHR 0x8D] @ '','' @ [CHR 0xE6, CHR 0x91, CHR 0x98, CHR 0xE8, CHR 0xA6,
      CHR 0x81] @ '','' @ [CHR 0xE5, CHR 0x8F, CHR 0x96, CHR 0xE5, CHR 0xBC, CHR 0x95,
      CHR 0xE5, CHR 0x85, CHR 0x88] @ '','' @ [CHR 0xE5, CHR 0x93, CHR 0x81, CHR 0xE7,
      CHR 0x9B, CHR 0xAE] @ '','' @ [CHR 0xE3, CHR 0x83, CHR 0xA1, CHR 0xE3, CHR 0x83,
      CHR 0xA2, CHR 0xE3, CHR 0x82, CHR 0xBF, CHR 0xE3, CHR 0x82, CHR 0xB0] @ '','' @
      [CHR 0xE6, CHR 0x9C, CHR 0x9F, CHR 0xE6, CHR 0x97, CHR 0xA5, CHR 0x0A]"

definition header_freee :: string where
  "header_freee =
     [CHR 0xE5, CHR 0x8F, CHR 0x8E, CHR 0xE6, CHR 0x94, CHR 0xAF, CHR 0xE5, CHR 0x8C,
      CHR 0xBA, CHR 0xE5, CHR 0x88, CHR 0x86] @ '','' @ [CHR 0xE7, CHR 0xAE, CHR 0xA1,
      CHR 0xE7, CHR 0x90, CHR 0x86, CHR 0xE7, CHR 0x95, CHR 0xAA, CHR 0xE5, CHR 0x8F,
      CHR 0xB7] @ '','' @ [CHR 0xE7, CHR 0x99, CHR 0xBA, CHR 0xE7, CHR 0x94, CHR 0x9F,
      CHR 0xE6, CHR 0x97, CHR 0xA5] @ '','' @ [CHR 0xE6, CHR 0xB1, CHR 0xBA, CHR 0xE6,
      CHR 0xB8, CHR 0x88, CHR 0xE6, CHR 0x9C, CHR 0x9F, CHR 0xE6, CHR 0x97, CHR 0xA5] @
      '','' @ [CHR 0xE5, CHR 0x8F, CHR 0x96, CHR 0xE5, CHR 0xBC, CHR 0x95, CHR 0xE5,
      CHR 0x85, CHR 0x88] @ '','' @ [CHR 0xE5, CHR 0x8B, CHR 0x98, CHR 0xE5, CHR 0xAE,
      CHR 0x9A, CHR 0xE7, CHR 0xA7, CHR 0x91, CHR 0xE7, CHR 0x9B, CHR 0xAE] @ '','' @
      [CHR 0xE7, CHR 0xA8, CHR 0x8E, CHR 0xE5, CHR 0x8C, CHR 0xBA, CHR 0xE5, CHR 0x88,
      CHR 0x86] @ '','' @ [CHR 0xE9, CHR 0x87, CHR 0x91, CHR 0xE9, CHR 0xA1, CHR 0x8D] @
      '','' @ [CHR 0xE7, CHR 0xA8, CHR 0x8E, CHR 0xE9, CHR 0xA1, CHR 0x8D] @ '','' @
      [CHR 0xE5, CHR 0x82, CHR 0x99, CHR 0xE8, CHR 0x80, CHR 0x83] @ '','' @ [CHR 0xE5,
      CHR 0x93, CHR 0x81, CHR 0xE7, CHR 0x9B, CHR 0xAE] @ '','' @ [CHR 0xE9, CHR 0x83,
      CHR 0xA8, CHR 0xE9, CHR 0x96, CHR 0x80] @ '','' @ [CHR 0xE3, CHR 0x83, CHR 0xA1,
      CHR 0xE3, CHR 0x83, CHR 0xA2, CHR 0xE3, CHR 0x82, CHR 0xBF, CHR 0xE3, CHR 0x82,
      CHR 0xB0] @ '','' @ [CHR 0xE3, CHR 0x82, CHR 0xBB, CHR 0xE3, CHR 0x82, CHR 0xB0,
      CHR 0xE3, CHR 0x83, CHR 0xA1, CHR 0xE3, CHR 0x83, CHR 0xB3, CHR 0xE3, CHR 0x83,
      CHR 0x88] @ ''1,'' @ [CHR 0xE3, CHR 0x82, CHR 0xBB, CHR 0xE3, CHR 0x82, CHR 0xB0,
      CHR 0xE3, CHR 0x83, CHR 0xA1, CHR 0xE3, CHR 0x83, CHR 0xB3, CHR 0xE3, CHR 0x83,
      CHR 0x88] @ ''2,'' @ [CHR 0xE3, CHR 0x82, CHR 0xBB, CHR 0xE3, CHR 0x82, CHR 0xB0,
      CHR 0xE3, CHR 0x83, CHR 0xA1, CHR 0xE3, CHR 0x83, CHR 0xB3, CHR 0xE3, CHR 0x83,
      CHR 0x88] @ ''3'' @ [CHR 0x0A]"

definition header_yayoi :: string where
  "header_yayoi =
     [CHR 0xE4, CHR 0xBC, CHR 0x9D, CHR 0xE7, CHR 0xA5, CHR 0xA8] @ ''No,'' @ [CHR 0xE6,
      CHR 0xB1, CHR 0xBA, CHR 0xE7, CHR 0xAE, CHR 0x97] @ '','' @ [CHR 0xE5, CHR 0x8F,
      CHR 0x96, CHR 0xE5, CHR 0xBC, CHR 0x95, CHR 0xE6, CHR 0x97, CHR 0xA5, CHR 0xE4,
      CHR 0xBB, CHR 0x98] @ '','' @ [CHR 0xE5, CHR 0x80, CHR 0x9F, CHR 0xE6, CHR 0x96,
      CHR 0xB9, CHR 0xE5, CHR 0x8B, CHR 0x98, CHR 0xE5, CHR 0xAE, CHR 0x9A, CHR 0xE7,
      CHR 0xA7, CHR 0x91, CHR 0xE7, CHR 0x9B, CHR 0xAE] @ '','' @ [CHR 0xE5, CHR 0x80,
      CHR 0x9F, CHR 0xE6, CHR 0x96, CHR 0xB9, CHR 0xE8, CHR 0xA3, CHR 0x9C, CHR 0xE5,
      CHR 0x8A, CHR 0xA9, CHR 0xE7, CHR 0xA7, CHR 0x91, CHR 0xE7, CHR 0x9B, CHR 0xAE] @
      '','' @ [CHR 0xE5, CHR 0x80, CHR 0x9F, CHR 0xE6, CHR 0x96, CHR 0xB9, CHR 0xE9,
      CHR 0x83, CHR 0xA8, CHR 0xE9, CHR 0x96, CHR 0x80] @ '','' @ [CHR 0xE5, CHR 0x80,
      CHR 0x9F, CHR 0xE6, CHR 0x96, CHR 0xB9, CHR 0xE7, CHR 0xA8, CHR 0x8E, CHR 0xE5,
      CHR 0x8C, CHR 0xBA, CHR 0xE5, CHR 0x88, CHR 0x86] @ '','' @ [CHR 0xE5, CHR 0x80,
      CHR 0x9F, CHR 0xE6, CHR 0x96, CHR 0xB9, CHR 0xE9, CHR 0x87, CHR 0x91, CHR 0xE9,
      CHR 0xA1, CHR 0x8D] @ '','' @ [CHR 0xE5, CHR 0x80, CHR 0x9F, CHR 0xE6, CHR 0x96,
      CHR 0xB9, CHR 0xE7, CHR 0xA8, CHR 0x8E, CHR 0xE9, CHR 0xA1, CHR 0x8D] @ '','' @
      [CHR 0xE8, CHR 0xB2, CHR 0xB8, CHR 0xE6, CHR 0x96, CHR 0xB9, CHR 0xE5, CHR 0x8B,
      CHR 0x98, CHR 0xE5, CHR 0xAE, CHR 0x9A, CHR 0xE7, CHR 0xA7, CHR 0x91, CHR 0xE7,
      CHR 0x9B, CHR 0xAE] @ '','' @ [CHR 0xE8, CHR 0xB2, CHR 0xB8, CHR 0xE6, CHR 0x96,
      CHR 0xB9, CHR 0xE8, CHR 0xA3, CHR 0x9C, CHR 0xE5, CHR 0x8A, CHR 0xA9, CHR 0xE7,
      CHR 0xA7, CHR 0x91, CHR 0xE7, CHR 0x9B, CHR 0xAE] @ '','' @ [CHR 0xE8, CHR 0xB2,
      CHR 0xB8, CHR 0xE6, CHR 0x96, CHR 0xB9, CHR 0xE9, CHR 0x83, CHR 0xA8, CHR 0xE9,
      CHR 0x96, CHR 0x80] @ '','' @ [CHR 0xE8, CHR 0xB2, CHR 0xB8, CHR 0xE6, CHR 0x96,
      CHR 0xB9, CHR 0xE7, CHR 0xA8, CHR 0x8E, CHR 0xE5, CHR 0x8C, CHR 0xBA, CHR 0xE5,
      CHR 0x88, CHR 0x86] @ '','' @ [CHR 0xE8, CHR 0xB2, CHR 0xB8, CHR 0xE6, CHR 0x96,
      CHR 0xB9, CHR 0xE9, CHR 0x87, CHR 0x91, CHR 0xE9, CHR 0xA1, CHR 0x8D] @ '','' @
      [CHR 0xE8, CHR 0xB2, CHR 0xB8, CHR 0xE6, CHR 0x96, CHR 0xB9, CHR 0xE7, CHR 0xA8,
      CHR 0x8E, CHR 0xE9, CHR 0xA1, CHR 0x8D] @ '','' @ [CHR 0xE6, CHR 0x91, CHR 0x98,
      CHR 0xE8, CHR 0xA6, CHR 0x81] @ '','' @ [CHR 0xE6, CHR 0x9C, CHR 0x9F, CHR 0xE6,
      CHR 0x97, CHR 0xA5] @ '','' @ [CHR 0xE8, CHR 0xA8, CHR 0xBC, CHR 0xE6, CHR 0x86,
      CHR 0x91, CHR 0xE7, CHR 0x95, CHR 0xAA, CHR 0xE5, CHR 0x8F, CHR 0xB7] @ '','' @
      [CHR 0xE5, CHR 0x85, CHR 0xA5, CHR 0xE5, CHR 0x8A, CHR 0x9B, CHR 0xE3, CHR 0x83,
      CHR 0x9E, CHR 0xE3, CHR 0x82, CHR 0xB7, CHR 0xE3, CHR 0x83, CHR 0xB3] @ '','' @
      [CHR 0xE5, CHR 0x85, CHR 0xA5, CHR 0xE5, CHR 0x8A, CHR 0x9B, CHR 0xE3, CHR 0x83,
      CHR 0xA6, CHR 0xE3, CHR 0x83, CHR 0xBC, CHR 0xE3, CHR 0x82, CHR 0xB6] @ '','' @
      [CHR 0xE5, CHR 0x85, CHR 0xA5, CHR 0xE5, CHR 0x8A, CHR 0x9B, CHR 0xE3, CHR 0x82,
      CHR 0xA2, CHR 0xE3, CHR 0x83, CHR 0x97, CHR 0xE3, CHR 0x83, CHR 0xAA] @ '','' @
      [CHR 0xE5, CHR 0x85, CHR 0xA5, CHR 0xE5, CHR 0x8A, CHR 0x9B, CHR 0xE4, CHR 0xBC,
      CHR 0x9A, CHR 0xE7, CHR 0xA4, CHR 0xBE] @ '','' @ [CHR 0xE5, CHR 0x85, CHR 0xA5,
      CHR 0xE5, CHR 0x8A, CHR 0x9B, CHR 0xE6, CHR 0x97, CHR 0xA5, CHR 0xE4, CHR 0xBB,
      CHR 0x98, CHR 0x0A]"

text \<open>
  Row labels: \<open>str_nyukin\<close> (U+5165 U+91D1, money in), \<open>str_shukkin\<close> (U+51FA U+91D1,
  money out), \<open>str_genkin\<close> (U+73FE U+91D1, cash), \<open>str_uriagedaka\<close> (U+58F2 U+4E0A U+9AD8,
  sales), \<open>str_keihi\<close> (U+7D4C U+8CBB, expenses), \<open>str_shunyu\<close> (U+53CE U+5165, income),
  \<open>str_shishutsu\<close> (U+652F U+51FA, expenditure).
\<close>

definition str_nyukin :: string where
  "str_nyukin =
     [CHR 0xE5, CHR 0x85, CHR 0xA5, CHR 0xE9, CHR 0x87, CHR 0x91]"

definition str_shukkin :: string where
  "str_shukkin =
     [CHR 0xE5, CHR 0x87, CHR 0xBA, CHR 0xE9, CHR 0x87, CHR 0x91]"

definition str_genkin :: string where
  "str_genkin =
     [CHR 0xE7, CHR 0x8F, CHR 0xBE, CHR 0xE9, CHR 0x87, CHR 0x91]"

definition str_uriagedaka :: string where
  "str_uriagedaka =
     [CHR 0xE5, CHR 0xA3, CHR 0xB2, CHR 0xE4, CHR 0xB8, CHR 0x8A, CHR 0xE9, CHR 0xAB,
      CHR 0x98]"

definition str_keihi :: string where
  "str_keihi =
     [CHR 0xE7, CHR 0xB5, CHR 0x8C, CHR 0xE8, CHR 0xB2, CHR 0xBB]"

definition str_shunyu :: string where
  "str_shunyu =
     [CHR 0xE5, CHR 0x8F, CHR 0x8E, CHR 0xE5, CHR 0x85, CHR 0xA5]"

definition str_shishutsu :: string where
  "str_shishutsu =
     [CHR 0xE6, CHR 0x94, CHR 0xAF, CHR 0xE5, CHR 0x87, CHR 0xBA]"

text \<open>
  Tax labels. The values of the table inside \<open>generateBasicCSV\<close> (keys \<open>tax10\<close>, \<open>tax8\<close>,
  \<open>nontax\<close>, \<open>taxfree\<close>, \<open>notaxable\<close>):
\<close>

definition basic_tax10 :: string where
  "basic_tax10 =
     [CHR 0xE8, CHR 0xAA, CHR 0xB2, CHR 0xE7, CHR 0xA8, CHR 0x8E] @ ''10%''"

definition basic_tax8 :: string where
  "basic_tax8 =
     [CHR 0xE8, CHR 0xBB, CHR 0xBD, CHR 0xE6, CHR 0xB8, CHR 0x9B, CHR 0xE7, CHR 0xA8,
      CHR 0x8E, CHR 0xE7, CHR 0x8E, CHR 0x87] @ ''8%''"

definition basic_nontax :: string where
  "basic_nontax =
     [CHR 0xE9, CHR 0x9D, CHR 0x9E, CHR 0xE8, CHR 0xAA, CHR 0xB2, CHR 0xE7, CHR 0xA8,
      CHR 0x8E]"

definition basic_taxfree :: string where
  "basic_taxfree =
     [CHR 0xE5, CHR 0x85, CHR 0x8D, CHR 0xE7, CHR 0xA8, CHR 0x8E]"

definition basic_notaxable :: string where
  "basic_notaxable =
     [CHR 0xE4, CHR 0xB8, CHR 0x8D, CHR 0xE8, CHR 0xAA, CHR 0xB2, CHR 0xE7, CHR 0xA8,
      CHR 0x8E]"

text \<open>The values of \<open>getMFTaxCode\<close>; \<open>getFreeeTaxCode\<close> differs in the 8 percent label only.\<close>

definition mf_taxable_10 :: string where
  "mf_taxable_10 =
     [CHR 0xE8, CHR 0xAA, CHR 0xB2, CHR 0xE7, CHR 0xA8, CHR 0x8E, CHR 0xE5, CHR 0xA3,
      CHR 0xB2, CHR 0xE4, CHR 0xB8, CHR 0x8A] @ ''10%''"

definition mf_taxable_8 :: string where
  "mf_taxable_8 =
     [CHR 0xE8, CHR 0xAA, CHR 0xB2, CHR 0xE7, CHR 0xA8, CHR 0x8E, CHR 0xE5, CHR 0xA3,
      CHR 0xB2, CHR 0xE4, CHR 0xB8, CHR 0x8A] @ ''8%''"

definition mf_non_taxable :: string where
  "mf_non_taxable =
     [CHR 0xE9, CHR 0x9D, CHR 0x9E, CHR 0xE8, CHR 0xAA, CHR 0xB2, CHR 0xE7, CHR 0xA8,
      CHR 0x8E, CHR 0xE5, CHR 0xA3, CHR 0xB2, CHR 0xE4, CHR 0xB8, CHR 0x8A]"

definition mf_tax_exempt :: string where
  "mf_tax_exempt =
     [CHR 0xE5, CHR 0x85, CHR 0x8D, CHR 0xE7, CHR 0xA8, CHR 0x8E, CHR 0xE5, CHR 0xA3,
      CHR 0xB2, CHR 0xE4, CHR 0xB8, CHR 0x8A]"

definition mf_out_of_scope :: string where
  "mf_out_of_scope =
     [CHR 0xE5, CHR 0xAF, CHR 0xBE, CHR 0xE8, CHR 0xB1, CHR 0xA1, CHR 0xE5, CHR 0xA4,
      CHR 0x96]"

definition freee_taxable_8 :: string where
  "freee_taxable_8 =
     [CHR 0xE8, CHR 0xBB, CHR 0xBD, CHR 0xE6, CHR 0xB8, CHR 0x9B, CHR 0xE7, CHR 0xA8,
      CHR 0x8E, CHR 0xE7, CHR 0x8E, CHR 0x87] @ ''8%''"

text \<open>The values of \<open>getYayoiTaxCode\<close>; its out-of-scope label is that of \<open>getMFTaxCode\<close>.\<close>

definition yayoi_taxable_10 :: string where
  "yayoi_taxable_10 =
     [CHR 0xE8, CHR 0xAA, CHR 0xB2, CHR 0xE5, CHR 0xA3, CHR 0xB2] @ ''10%''"

definition yayoi_taxable_8 :: string where
  "yayoi_taxable_8 =
     [CHR 0xE8, CHR 0xAA, CHR 0xB2, CHR 0xE5, CHR 0xA3, CHR 0xB2] @ ''8%''"

definition yayoi_non_taxable :: string where
  "yayoi_non_taxable =
     [CHR 0xE9, CHR 0x9D, CHR 0x9E, CHR 0xE8, CHR 0xAA, CHR 0xB2, CHR 0xE7, CHR 0xA8,
      CHR 0x8E]"

definition yayoi_tax_exempt :: string where
  "yayoi_tax_exempt =
     [CHR 0xE5, CHR 0x85, CHR 0x8D, CHR 0xE7, CHR 0xA8, CHR 0x8E]"

text \<open>
  The values of \<open>getTaxLabel\<close>, which labels the rows of the on-screen table; its labels
  for \<open>non-taxable\<close> and \<open>tax-exempt\<close> are those of \<open>getYayoiTaxCode\<close>.
\<close>

definition label_taxable_10 :: string where
  "label_taxable_10 =
     [CHR 0xE8, CHR 0xAA, CHR 0xB2, CHR 0xE7, CHR 0xA8, CHR 0x8E] @ ''10%''"

definition label_taxable_8 :: string where
  "label_taxable_8 =
     [CHR 0xE8, CHR 0xBB, CHR 0xBD, CHR 0xE6, CHR 0xB8, CHR 0x9B] @ ''8%''"

definition label_out_of_scope :: string where
  "label_out_of_scope =
     [CHR 0xE4, CHR 0xB8, CHR 0x8D, CHR 0xE8, CHR 0xAA, CHR 0xB2, CHR 0xE7, CHR 0xA8,
      CHR 0x8E]"

text \<open>
  The names of the members that an object literal inherits from \<open>Object.prototype\<close>. Each
  of them is a function or an object, and so is truthy.
\<close>

definition object_prototype_names :: "string list" where
  "object_prototype_names =
     [''constructor'', ''hasOwnProperty'', ''isPrototypeOf'', ''propertyIsEnumerable'',
      ''toLocaleString'', ''toString'', ''valueOf'', ''__proto__'', ''__defineGetter__'',
      ''__defineSetter__'', ''__lookupGetter__'', ''__lookupSetter__'']"

text \<open>
  \<open>table[key] || dflt\<close> on an object literal with string values, interpolated into a
  template: the value written under the key when there is one and it is not the empty
  string; for a key that the literal does not hold, the inherited member of that name when
  there is one; otherwise the default.
\<close>

definition lookup_or ::
  "host \<Rightarrow> (string \<times> string) list \<Rightarrow> string \<Rightarrow> string \<Rightarrow> string" where
  "lookup_or h table key dflt =
     (case map_of table key of
        Some v \<Rightarrow> (if v = [] then dflt else v)
      | None \<Rightarrow> (if key \<in> set object_prototype_names then inherited_text h key else dflt))"

definition taxLabels :: "(string \<times> string) list" where
  "taxLabels =
     [(''tax10'', basic_tax10),
      (''tax8'', basic_tax8),
      (''nontax'', basic_nontax),
      (''taxfree'', basic_taxfree),
      (''notaxable'', basic_notaxable)]"

definition basicTaxType :: "host \<Rightarrow> string \<Rightarrow> string" where
  "basicTaxType h tax_code = lookup_or h taxLabels tax_code []"

definition mf_codes :: "(string \<times> string) list" where
  "mf_codes =
     [(''taxable-10'', mf_taxable_10),
      (''taxable-8'', mf_taxable_8),
      (''non-taxable'', mf_non_taxable),
      (''tax-exempt'', mf_tax_exempt),
      (''out-of-scope'', mf_out_of_scope)]"

definition getMFTaxCode :: "host \<Rightarrow> string \<Rightarrow> string" where
  "getMFTaxCode h tax_code = lookup_or h mf_codes tax_code mf_taxable_10"

definition freee_codes :: "(string \<times> string) list" where
  "freee_codes =
     [(''taxable-10'', mf_taxable_10),
      (''taxable-8'', freee_taxable_8),
      (''non-taxable'', mf_non_taxable),
      (''tax-exempt'', mf_tax_exempt),
      (''out-of-scope'', mf_out_of_scope)]"

definition getFreeeTaxCode :: "host \<Rightarrow> string \<Rightarrow> string" where
  "getFreeeTaxCode h tax_code = lookup_or h freee_codes tax_code mf_taxable_10"

definition yayoi_codes :: "(string \<times> string) list" where
  "yayoi_codes =
     [(''taxable-10'', yayoi_taxable_10),
      (''taxable-8'', yayoi_taxable_8),
      (''non-taxable'', yayoi_non_taxable),
      (''tax-exempt'', yayoi_tax_exempt),
      (''out-of-scope'', mf_out_of_scope)]"

definition getYayoiTaxCode :: "host \<Rightarrow> string \<Rightarrow> string" where
  "getYayoiTaxCode h tax_code = lookup_or h yayoi_codes tax_code yayoi_taxable_10"

definition labels :: "(string \<times> string) list" where
  "labels =
     [(''taxable-10'', label_taxable_10),
      (''taxable-8'', label_taxable_8),
      (''non-taxable'', yayoi_non_taxable),
      (''tax-exempt'', yayoi_tax_exempt),
      (''out-of-scope'', label_out_of_scope)]"

definition getTaxLabel :: "host \<Rightarrow> string \<Rightarrow> string" where
  "getTaxLabel h tax_code = lookup_or h labels tax_code tax_code"

subsection \<open>Text helpers\<close>

text \<open>
  Template interpolation of an integer: up to 2 to the power 53 its decimal digits, with a
  minus sign; beyond, the text the host makes of the double.
\<close>

fun digits :: "nat \<Rightarrow> string" where
  "digits n =
     (if n < 10 then [''0123456789'' ! n]
      else digits (n div 10) @ [''0123456789'' ! (n mod 10)])"

declare digits.simps [simp del]

definition decimal_text :: "int \<Rightarrow> string" where
  "decimal_text i = (if i < 0 then CHR ''-'' # digits (nat (- i)) else digits (nat i))"

definition number_to_string :: "host \<Rightarrow> int \<Rightarrow> string" where
  "number_to_string h i = (if \<bar>i\<bar> \<le> 2 ^ 53 then decimal_text i else large_number_text h i)"

definition dquote :: string where
  "dquote = [CHR 0x22]"

text \<open>\<open>s.replace(/"/g, '""')\<close>: every double quote is written twice.\<close>

definition replace_quotes :: "string \<Rightarrow> string" where
  "replace_quotes s = concat (map (\<lambda>c. if c = CHR 0x22 then [CHR 0x22, CHR 0x22] else [c]) s)"

text \<open>
  The class defines \<open>getAccountSubjectName\<close> twice; the later definition is the one in
  force. \<open>getSubAccountName\<close> takes one argument, the identifier it searches for among the
  sub-accounts of all subjects.
\<close>

definition getAccountSubjectName ::
  "host \<Rightarrow> app \<Rightarrow> int option \<Rightarrow> string" where
  "getAccountSubjectName h a accountSubjectId =
     (if length (accountSubjects a) = 0 then []
      else (case find (\<lambda>s. Some (subject_id s) = accountSubjectId) (accountSubjects a) of
              None \<Rightarrow> []
            | Some subject \<Rightarrow> escapeHtml h (subject_name subject)))"

fun getSubAccountName_loop ::
  "host \<Rightarrow> account_subject list \<Rightarrow> int option \<Rightarrow> string" where
  "getSubAccountName_loop h [] subAccountId = []"
| "getSubAccountName_loop h (subject # rest) subAccountId =
     (if length (sub_accounts subject) > 0
      then (case find (\<lambda>s. Some (sub_id s) = subAccountId) (sub_accounts subject) of
              Some subAccount \<Rightarrow> escapeHtml h (sub_name subAccount)
            | None \<Rightarrow> getSubAccountName_loop h rest subAccountId)
      else getSubAccountName_loop h rest subAccountId)"

definition getSubAccountName ::
  "host \<Rightarrow> app \<Rightarrow> int option \<Rightarrow> string" where
  "getSubAccountName h a subAccountId =
     (if length (accountSubjects a) = 0 then []
      else getSubAccountName_loop h (accountSubjects a) subAccountId)"

text \<open>Truthiness of a number-or-null: not null and not zero.\<close>

fun truthy :: "int option \<Rightarrow> bool" where
  "truthy None = False"
| "truthy (Some n) = (n \<noteq> 0)"

subsection \<open>generateBasicCSV\<close>

text \<open>The two amount columns of a row: the amount, or the empty string.\<close>

definition basic_income :: "host \<Rightarrow> transaction \<Rightarrow> string" where
  "basic_income h t = (if type t = ''income'' then number_to_string h (amount t) else [])"

definition basic_expense :: "host \<Rightarrow> transaction \<Rightarrow> string" where
  "basic_expense h t = (if type t = ''expense'' then number_to_string h (amount t) else [])"

text \<open>The balance after a row: an income adds, everything else subtracts.\<close>

definition basic_balance :: "int \<Rightarrow> transaction \<Rightarrow> int" where
  "basic_balance bal t =
     (if type t = ''income'' then js_add bal (amount t) else js_sub bal (amount t))"

text \<open>The line appended for transaction \<open>t\<close>, given the balance \<open>bal\<close> after it.\<close>

definition basic_row ::
  "host \<Rightarrow> app \<Rightarrow> int \<Rightarrow> transaction \<Rightarrow> string" where
  "basic_row h a bal t =
     (let type_label = (if type t = ''income'' then str_nyukin else str_shukkin);
          income = basic_income h t;
          expense = basic_expense h t;
          description_q = replace_quotes (description t);
          client_q = replace_quotes (client t);
          accountSubject = getAccountSubjectName h a (account_subject_id t);
          subAccount = (if truthy (sub_account_id t)
                        then getSubAccountName h a (account_subject_id t) else []);
          tax_label = basicTaxType h (taxType t)
      in date t @ '','' @ dquote @ type_label @ dquote @ '','' @
         dquote @ description_q @ dquote @ '','' @ dquote @ client_q @ dquote @ '','' @
         dquote @ accountSubject @ dquote @ '','' @ dquote @ subAccount @ dquote @ '','' @
         income @ '','' @ expense @ '','' @ number_to_string h bal @ '','' @
         dquote @ tax_label @ dquote @ [CHR 0x0A])"

text \<open>The \<open>forEach\<close> loop: the text so far and the running balance.\<close>

fun generateBasicCSV_loop ::
  "host \<Rightarrow> app \<Rightarrow> string \<times> int \<Rightarrow> transaction list \<Rightarrow> string \<times> int" where
  "generateBasicCSV_loop h a (csv, bal) [] = (csv, bal)"
| "generateBasicCSV_loop h a (csv, bal) (t # ts) =
     (let bal' = basic_balance bal t
      in generateBasicCSV_loop h a (csv @ basic_row h a bal' t, bal') ts)"

definition generateBasicCSV_state ::
  "host \<Rightarrow> app \<Rightarrow> transaction list \<Rightarrow> string \<times> int" where
  "generateBasicCSV_state h a ts =
     generateBasicCSV_loop h a
       (header_basic, or_zero (openingBalance (getCurrentSettings a))) ts"

definition generateBasicCSV ::
  "host \<Rightarrow> app \<Rightarrow> transaction list \<Rightarrow> string" where
  "generateBasicCSV h a ts = fst (generateBasicCSV_state h a ts)"

subsection \<open>generateMFCloudCSV, generateFreeeCSV, generateYayoiCSV\<close>

definition mf_row :: "host \<Rightarrow> nat \<Rightarrow> transaction \<Rightarrow> string" where
  "mf_row h index t =
     (let amount_s = number_to_string h (amount t);
          description_q = replace_quotes (description t);
          client_q = replace_quotes (client t)
      in if type t = ''income''
         then number_to_string h (int index + 1) @ '','' @ date t @ '','' @ str_genkin @
              '',,,,'' @ amount_s @ '',,'' @ str_uriagedaka @ '',,,,'' @ amount_s @ '',,'' @
              dquote @ description_q @ dquote @ '','' @ dquote @ client_q @ dquote @
              '',,,,'' @ [CHR 0x0A]
         else number_to_string h (int index + 1) @ '','' @ date t @ '','' @ str_keihi @
              '',,,,'' @ amount_s @ '',,'' @ str_genkin @ '',,,,'' @ amount_s @ '',,'' @
              dquote @ description_q @ dquote @ '','' @ dquote @ client_q @ dquote @
              '',,,,'' @ [CHR 0x0A])"

fun generateMFCloudCSV_loop ::
  "host \<Rightarrow> string \<Rightarrow> nat \<Rightarrow> transaction list \<Rightarrow> string" where
  "generateMFCloudCSV_loop h csv index [] = csv"
| "generateMFCloudCSV_loop h csv index (t # ts) =
     generateMFCloudCSV_loop h (csv @ mf_row h index t) (Suc index) ts"

definition generateMFCloudCSV :: "host \<Rightarrow> transaction list \<Rightarrow> string" where
  "generateMFCloudCSV h ts = generateMFCloudCSV_loop h header_mf 0 ts"

definition freee_row :: "host \<Rightarrow> transaction \<Rightarrow> string" where
  "freee_row h t =
     (let taxCode = getFreeeTaxCode h (taxType t);
          amount_s = number_to_string h (amount t);
          description_q = replace_quotes (description t);
          client_q = replace_quotes (client t);
          type_label = (if type t = ''income'' then str_shunyu else str_shishutsu);
          account = (if type t = ''income'' then str_uriagedaka else str_keihi)
      in type_label @ '',,'' @ date t @ '',,'' @ client_q @ '','' @ account @ '','' @
         taxCode @ '','' @ amount_s @ '',,'' @ dquote @ description_q @ dquote @
         '',,,,,,'' @ [CHR 0x0A])"

fun generateFreeeCSV_loop :: "host \<Rightarrow> string \<Rightarrow> transaction list \<Rightarrow> string" where
  "generateFreeeCSV_loop h csv [] = csv"
| "generateFreeeCSV_loop h csv (t # ts) = generateFreeeCSV_loop h (csv @ freee_row h t) ts"

definition generateFreeeCSV :: "host \<Rightarrow> transaction list \<Rightarrow> string" where
  "generateFreeeCSV h ts = generateFreeeCSV_loop h header_freee ts"

definition yayoi_row :: "host \<Rightarrow> nat \<Rightarrow> transaction \<Rightarrow> string" where
  "yayoi_row h index t =
     (let taxCode = getYayoiTaxCode h (taxType t);
          amount_s = number_to_string h (amount t);
          description_q = replace_quotes (description t)
      in if type t = ''income''
         then number_to_string h (int index + 1) @ '',,'' @ date t @ '','' @ str_genkin @
              '',,,'' @ taxCode @ '','' @ amount_s @ '',,'' @ str_uriagedaka @ '',,,'' @
              taxCode @ '','' @ amount_s @ '',,'' @ dquote @ description_q @ dquote @
              '',,,,,,,,'' @ [CHR 0x0A]
         else number_to_string h (int index + 1) @ '',,'' @ date t @ '','' @ str_keihi @
              '',,,'' @ taxCode @ '','' @ amount_s @ '',,'' @ str_genkin @ '',,,'' @
              taxCode @ '','' @ amount_s @ '',,'' @ dquote @ description_q @ dquote @
              '',,,,,,,,'' @ [CHR 0x0A])"

fun generateYayoiCSV_loop ::
  "host \<Rightarrow> string \<Rightarrow> nat \<Rightarrow> transaction list \<Rightarrow> string" where
  "generateYayoiCSV_loop h csv index [] = csv"
| "generateYayoiCSV_loop h csv index (t # ts) =
     generateYayoiCSV_loop h (csv @ yayoi_row h index t) (Suc index) ts"

definition generateYayoiCSV :: "host \<Rightarrow> transaction list \<Rightarrow> string" where
  "generateYayoiCSV h ts = generateYayoiCSV_loop h header_yayoi 0 ts"

subsection \<open>exportToCSV and the attachment of sendMonthlyClosing\<close>

text \<open>
  How a call of \<open>exportToCSV\<close> ends: with the alert that asks for both months, with the
  alert that the period holds no transactions, with an uncaught \<open>TypeError\<close> (a property
  read on \<open>null\<close> or \<open>undefined\<close>), or with the download of a CSV text.
\<close>

datatype export_outcome =
  AlertSelectPeriod
| AlertNoData
| TypeError
| Download string

definition period_filter ::
  "string \<Rightarrow> string \<Rightarrow> transaction list \<Rightarrow> transaction list" where
  "period_filter startMonth endMonth ts =
     filter (\<lambda>t. let transMonth = take 7 (date t)
                 in transMonth \<ge> startMonth \<and> transMonth \<le> endMonth) ts"

text \<open>\<open>s || d\<close> on strings: the empty string is replaced by the default.\<close>

definition or_default :: "string \<Rightarrow> string \<Rightarrow> string" where
  "or_default s d = (if s = [] then d else s)"

definition csv_for_format ::
  "host \<Rightarrow> app \<Rightarrow> string \<Rightarrow> transaction list \<Rightarrow> string" where
  "csv_for_format h a format filtered =
     (if format = ''basic'' then BOM @ generateBasicCSV h a filtered
      else if format = ''mf'' then BOM @ generateMFCloudCSV h filtered
      else if format = ''freee'' then BOM @ generateFreeeCSV h filtered
      else if format = ''yayoi'' then BOM @ generateYayoiCSV h filtered
      else BOM @ generateMFCloudCSV h filtered)"

definition exportToCSV ::
  "host \<Rightarrow> app \<Rightarrow> string \<Rightarrow> string \<Rightarrow> export_outcome" where
  "exportToCSV h a startMonth endMonth =
     (if startMonth = [] \<or> endMonth = [] then AlertSelectPeriod
      else (let filtered = period_filter startMonth endMonth (getCurrentTransactions a)
            in if length filtered = 0 then AlertNoData
               else (case subscription_plan a of
                       None \<Rightarrow> TypeError
                     | Some p \<Rightarrow>
                         (let plan = or_default p ''free''
                          in if plan = ''basic'' \<or> plan = ''professional''
                             then (case getCurrentBook a of
                                     None \<Rightarrow> TypeError
                                   | Some book \<Rightarrow>
                                       Download (csv_for_format h a
                                         (or_default (exportFormat (book_settings book)) ''mf'')
                                         filtered))
                             else Download (csv_for_format h a ''basic'' filtered)))))"

text \<open>
  The CSV text that \<open>sendMonthlyClosing\<close> hands to the mail API for the filtered
  transactions, once a recipient is chosen and the user has confirmed; \<open>None\<close> is the
  \<open>TypeError\<close> of reading the settings of a missing book.
\<close>

definition sendMonthlyClosing_csvContent ::
  "host \<Rightarrow> app \<Rightarrow> transaction list \<Rightarrow> string option" where
  "sendMonthlyClosing_csvContent h a filtered =
     (case getCurrentBook a of
        None \<Rightarrow> None
      | Some book \<Rightarrow>
          (let format = or_default (exportFormat (book_settings book)) ''mf''
           in Some (if format = ''mf'' then generateMFCloudCSV h filtered
                    else if format = ''freee'' then generateFreeeCSV h filtered
                    else if format = ''yayoi'' then generateYayoiCSV h filtered
                    else generateBasicCSV h a filtered)))"

section \<open>Loading the state (constructor, init, switchToBook)\<close>

text \<open>
  The rows the API answers with. A field that may be missing or \<open>null\<close> is an option.
\<close>

record api_book =
  api_book_id :: int
  business_name :: string
  account_name :: string
  opening_balance :: "int option"
  export_format :: "string option"

record api_transaction =
  api_id :: int
  api_date :: string
  api_type :: string
  api_description :: string
  api_client :: "string option"
  api_amount :: int
  api_account_subject_id :: "int option"
  api_sub_account_id :: "int option"
  api_tax_code :: "string option"

text \<open>
  What the page finds when it loads: whether the API client holds a token, the answers of
  the API (\<open>None\<close> when the request fails or its answer cannot be read; for the
  subscription also when the answer has no plan), and the identifier of the last used book
  in the local storage.
\<close>

record server =
  isAuthenticated :: bool
  getBooks :: "api_book list option"
  getSubscription :: "string option"
  last_book_id :: "int option"
  getAccountSubjects :: "int \<Rightarrow> account_subject list option"
  getTransactions :: "int \<Rightarrow> api_transaction list option"

text \<open>The state the constructor sets up before it calls \<open>init\<close>.\<close>

definition new_CashBookApp :: app where
  "new_CashBookApp =
     \<lparr>books = [], currentBookId = None, subscription_plan = None, accountSubjects = []\<rparr>"

definition book_of_api :: "api_book \<Rightarrow> book" where
  "book_of_api b =
     \<lparr>book_id = api_book_id b,
      businessName = business_name b,
      accountName = account_name b,
      book_settings =
        \<lparr>openingBalance = (case opening_balance b of None \<Rightarrow> 0 | Some n \<Rightarrow> or_zero n),
         exportFormat = (case export_format b of None \<Rightarrow> ''mf'' | Some f \<Rightarrow> or_default f ''mf'')\<rparr>,
      transactions = []\<rparr>"

definition loadBooksFromAPI :: "server \<Rightarrow> app \<Rightarrow> app" where
  "loadBooksFromAPI srv a =
     a\<lparr>books := (case getBooks srv of
                     None \<Rightarrow> []
                   | Some rawBooks \<Rightarrow> map book_of_api rawBooks)\<rparr>"

definition loadSubscriptionFromAPI :: "server \<Rightarrow> app \<Rightarrow> app" where
  "loadSubscriptionFromAPI srv a =
     a\<lparr>subscription_plan := (case getSubscription srv of
                                 None \<Rightarrow> Some ''free''
                               | Some p \<Rightarrow> Some (or_default p ''free''))\<rparr>"

definition loadAccountSubjectsFromAPI :: "server \<Rightarrow> int \<Rightarrow> app \<Rightarrow> app" where
  "loadAccountSubjectsFromAPI srv bookId a =
     a\<lparr>accountSubjects := (case getAccountSubjects srv bookId of
                               None \<Rightarrow> []
                             | Some subjects \<Rightarrow> subjects)\<rparr>"

text \<open>\<open>x || null\<close> on a number-or-null: zero becomes \<open>null\<close>.\<close>

fun or_null :: "int option \<Rightarrow> int option" where
  "or_null None = None"
| "or_null (Some n) = (if n = 0 then None else Some n)"

definition transaction_of_api :: "host \<Rightarrow> api_transaction \<Rightarrow> transaction" where
  "transaction_of_api h t =
     \<lparr>tx_id = number_to_string h (api_id t),
      date = api_date t,
      type = api_type t,
      description = api_description t,
      client = (case api_client t of None \<Rightarrow> [] | Some c \<Rightarrow> c),
      amount = api_amount t,
      account_subject_id = or_null (api_account_subject_id t),
      sub_account_id = or_null (api_sub_account_id t),
      taxType = (case api_tax_code t of None \<Rightarrow> [] | Some c \<Rightarrow> c)\<rparr>"

text \<open>
  The assignment \<open>book.transactions = ...\<close> to the object \<open>getCurrentBook\<close> returns: the
  first book of the list with the selected identifier is the one that changes.
\<close>

fun assign_first :: "('a \<Rightarrow> bool) \<Rightarrow> ('a \<Rightarrow> 'a) \<Rightarrow> 'a list \<Rightarrow> 'a list" where
  "assign_first P f [] = []"
| "assign_first P f (x # xs) = (if P x then f x # xs else x # assign_first P f xs)"

definition loadTransactionsFromAPI :: "host \<Rightarrow> server \<Rightarrow> int \<Rightarrow> app \<Rightarrow> app" where
  "loadTransactionsFromAPI h srv bookId a =
     (case getTransactions srv bookId of
        None \<Rightarrow> a
      | Some rows \<Rightarrow>
          (case getCurrentBook a of
             None \<Rightarrow> a
           | Some book \<Rightarrow>
               a\<lparr>books := assign_first (\<lambda>b. Some (book_id b) = currentBookId a)
                            (\<lambda>b. b\<lparr>transactions := map (transaction_of_api h) rows\<rparr>)
                            (books a)\<rparr>))"

text \<open>
  \<open>switchToBook\<close> selects the book and loads its account subjects and transactions; what
  it does after that is display.
\<close>

definition switchToBook :: "host \<Rightarrow> server \<Rightarrow> int \<Rightarrow> app \<Rightarrow> app" where
  "switchToBook h srv bookId a =
     loadTransactionsFromAPI h srv bookId
       (loadAccountSubjectsFromAPI srv bookId (a\<lparr>currentBookId := Some bookId\<rparr>))"

text \<open>
  \<open>init\<close>, which the constructor calls and which \<open>handleLogin\<close> and \<open>handleRegister\<close> call
  again once the client holds a token. Without a token it shows the login dialog and
  returns. The \<open>catch\<close> clause assigns nothing to the state.
\<close>

definition init :: "host \<Rightarrow> server \<Rightarrow> app \<Rightarrow> app" where
  "init h srv a =
     (if \<not> isAuthenticated srv then a
      else (let a1 = loadBooksFromAPI srv a;
                a2 = loadSubscriptionFromAPI srv a1
            in if length (books a2) = 0 then a2
               else (case find (\<lambda>b. Some (book_id b) = last_book_id srv) (books a2) of
                       Some book \<Rightarrow> switchToBook h srv (book_id book) a2
                     | None \<Rightarrow> switchToBook h srv (book_id (hd (books a2))) a2)))"

text \<open>
  \<open>clearAllData\<close> asks for a selected book and empties the transactions of the book
  \<open>getCurrentBook\<close> returns; on a selection that names no book the assignment throws and
  the state stays as it is.
\<close>

definition clearAllData :: "app \<Rightarrow> app" where
  "clearAllData a =
     (case getCurrentBook a of
        None \<Rightarrow> a
      | Some book \<Rightarrow>
          a\<lparr>books := assign_first (\<lambda>b. Some (book_id b) = currentBookId a)
                       (\<lambda>b. b\<lparr>transactions := []\<rparr>) (books a)\<rparr>)"

text \<open>
  A session: the page load constructs the application, and from then on the books, the
  selection, the subscription and the transactions change by calls of \<open>init\<close> (from the
  constructor, and after each login or registration), of \<open>switchToBook\<close>, of
  \<open>loadTransactionsFromAPI\<close> (after a transaction was added, changed or deleted), of
  \<open>loadAccountSubjectsFromAPI\<close> and of \<open>clearAllData\<close>, each call with the answers the API
  gives at that time.
\<close>

datatype call =
  Init server
| SwitchToBook server int
| LoadTransactionsFromAPI server int
| LoadAccountSubjectsFromAPI server int
| ClearAllData

fun perform :: "host \<Rightarrow> app \<Rightarrow> call \<Rightarrow> app" where
  "perform h a (Init srv) = init h srv a"
| "perform h a (SwitchToBook srv bookId) = switchToBook h srv bookId a"
| "perform h a (LoadTransactionsFromAPI srv bookId) = loadTransactionsFromAPI h srv bookId a"
| "perform h a (LoadAccountSubjectsFromAPI srv bookId) = loadAccountSubjectsFromAPI srv bookId a"
| "perform h a ClearAllData = clearAllData a"

definition session :: "host \<Rightarrow> call list \<Rightarrow> app" where
  "session h calls = foldl (perform h) new_CashBookApp calls"

section \<open>Coupon validation (POST /api/coupons/validate)\<close>

text \<open>
  SQL truth values: \<open>None\<close> is the unknown value that a comparison with \<open>NULL\<close> yields.
  A row is selected when its \<open>WHERE\<close> clause evaluates to \<open>Some True\<close>.
\<close>

type_synonym sql_bool = "bool option"

definition sql_and :: "sql_bool \<Rightarrow> sql_bool \<Rightarrow> sql_bool" where
  "sql_and p q =
     (if p = Some False \<or> q = Some False then Some False
      else if p = None \<or> q = None then None
      else Some True)"

definition sql_or :: "sql_bool \<Rightarrow> sql_bool \<Rightarrow> sql_bool" where
  "sql_or p q =
     (if p = Some True \<or> q = Some True then Some True
      else if p = None \<or> q = None then None
      else Some False)"

definition sql_is_null :: "'a option \<Rightarrow> sql_bool" where
  "sql_is_null x = Some (x = None)"

fun sql_eq :: "'a option \<Rightarrow> 'a option \<Rightarrow> sql_bool" where
  "sql_eq (Some x) (Some y) = Some (x = y)"
| "sql_eq _ _ = None"

text \<open>
  The values a column of numeric affinity holds besides \<open>NULL\<close>: a bound written as a
  number, or as a text that reads as a number, is stored as a number, every other text as
  it is. SQLite sorts every number below every text, numbers by value and texts byte by
  byte.
\<close>

datatype sql_value = SqlNumber real | SqlText string

fun sql_value_le :: "sql_value \<Rightarrow> sql_value \<Rightarrow> bool" where
  "sql_value_le (SqlNumber x) (SqlNumber y) = (x \<le> y)"
| "sql_value_le (SqlNumber x) (SqlText t) = True"
| "sql_value_le (SqlText s) (SqlNumber y) = False"
| "sql_value_le (SqlText s) (SqlText t) = (s \<le> t)"

fun sql_le :: "sql_value option \<Rightarrow> sql_value option \<Rightarrow> sql_bool" where
  "sql_le (Some x) (Some y) = Some (sql_value_le x y)"
| "sql_le _ _ = None"

fun sql_lt :: "int option \<Rightarrow> int option \<Rightarrow> sql_bool" where
  "sql_lt (Some x) (Some y) = Some (x < y)"
| "sql_lt _ _ = None"

text \<open>
  The rows of the tables \<open>coupons\<close>, \<open>coupon_redemptions\<close> and \<open>users\<close>. Every column that
  the schema leaves nullable is an option. The columns \<open>valid_from\<close> and \<open>valid_until\<close> are
  declared \<open>DATETIME\<close>, which gives them numeric affinity. Of a user the route reads
  nothing but the existence of the row; the columns kept are the identifier, the e-mail
  address and the name.
\<close>

record coupon =
  coupon_id :: int
  code :: string
  discount_type :: string
  discount_value :: real
  plan_restriction :: "string option"
  max_redemptions :: "int option"
  redemption_count :: "int option"
  valid_from :: "sql_value option"
  valid_until :: "sql_value option"
  is_active :: "int option"
  stripe_coupon_id :: "string option"

record coupon_redemption =
  redemption_id :: int
  redeemed_coupon_id :: int
  redeemed_user_id :: int
  redeemed_at :: "string option"

record user =
  user_id :: int
  user_email :: string
  user_name :: string

record database =
  coupons :: "coupon list"
  coupon_redemptions :: "coupon_redemption list"
  users :: "user list"

text \<open>
  The \<open>WHERE\<close> clause of the validation query, for the bound values \<open>code_v\<close> and \<open>plan_v\<close>
  (\<open>None\<close> is a bound \<open>NULL\<close>) and the text \<open>now\<close> of \<open>datetime('now')\<close>, which has the form
  \<open>YYYY-MM-DD HH:MM:SS\<close>; it does not read as a number and is compared as a text.
\<close>

definition validate_where ::
  "string \<Rightarrow> string option \<Rightarrow> string option \<Rightarrow> coupon \<Rightarrow> sql_bool" where
  "validate_where now code_v plan_v c =
     sql_and (sql_eq (Some (code c)) code_v)
    (sql_and (sql_eq (is_active c) (Some 1))
    (sql_and (sql_or (sql_is_null (valid_from c)) (sql_le (valid_from c) (Some (SqlText now))))
    (sql_and (sql_or (sql_is_null (valid_until c)) (sql_le (Some (SqlText now)) (valid_until c)))
    (sql_and (sql_or (sql_is_null (max_redemptions c))
                     (sql_lt (redemption_count c) (max_redemptions c)))
             (sql_or (sql_is_null (plan_restriction c))
                     (sql_eq (plan_restriction c) plan_v))))))"

text \<open>
  A prepared \<open>SELECT\<close> run with \<open>first()\<close>: the first selected row or nothing, and the
  database after the statement.
\<close>

definition select_first_coupon ::
  "(coupon \<Rightarrow> sql_bool) \<Rightarrow> database \<Rightarrow> coupon option \<times> database" where
  "select_first_coupon wh db = (find (\<lambda>c. wh c = Some True) (coupons db), db)"

text \<open>
  A field of the request body as it reaches \<open>bind\<close>: absent (\<open>undefined\<close>, which \<open>bind\<close>
  refuses with an exception), \<open>null\<close>, or a string. A request whose body is not a JSON
  object is \<open>None\<close>: reading it throws.
\<close>

datatype bind_value = JsUndefined | JsNull | JsString string

record validate_body =
  body_code :: bind_value
  body_plan :: bind_value

fun to_sql :: "bind_value \<Rightarrow> string option" where
  "to_sql (JsString s) = Some s"
| "to_sql _ = None"

text \<open>
  The three answers of the handler: \<open>{coupon, valid: true}\<close> with status 200, the error
  \<open>Invalid or expired coupon\<close> with status 400, and the message of a caught exception
  with status 500.
\<close>

datatype validate_response =
  CouponValid coupon
| InvalidOrExpired
| ServerError

definition validate ::
  "string \<Rightarrow> validate_body option \<Rightarrow> database \<Rightarrow> validate_response \<times> database" where
  "validate now req db =
     (case req of
        None \<Rightarrow> (ServerError, db)
      | Some body \<Rightarrow>
          (if body_code body = JsUndefined \<or> body_plan body = JsUndefined
           then (ServerError, db)
           else (let (coupon, db') =
                       select_first_coupon
                         (validate_where now (to_sql (body_code body)) (to_sql (body_plan body))) db
                 in case coupon of
                      None \<Rightarrow> (InvalidOrExpired, db')
                    | Some c \<Rightarrow> (CouponValid c, db'))))"

text \<open>A sequence of validation requests, each at its own time, served one after another.\<close>

fun validate_all ::
  "(string \<times> validate_body option) list \<Rightarrow> database \<Rightarrow> validate_response list \<times> database" where
  "validate_all [] db = ([], db)"
| "validate_all ((now, req) # rest) db =
     (let (r, db') = validate now req db;
          (rs, db'') = validate_all rest db'
      in (r # rs, db''))"

section \<open>Reference notions and example data\<close>

text \<open>
  The sums the ledger properties speak of, in exact integer arithmetic: the amounts of the
  transactions whose type is \<open>income\<close>, and of those whose type is \<open>expense\<close>; the balance
  after each transaction of a list, an income adding its amount and an expense subtracting
  it; and the sum of the magnitudes of all amounts, which bounds every intermediate result.
\<close>

definition sum_income :: "transaction list \<Rightarrow> int" where
  "sum_income ts = sum_list (map amount (filter (\<lambda>t. type t = ''income'') ts))"

definition sum_expense :: "transaction list \<Rightarrow> int" where
  "sum_expense ts = sum_list (map amount (filter (\<lambda>t. type t = ''expense'') ts))"

definition signed_amount :: "transaction \<Rightarrow> int" where
  "signed_amount t =
     (if type t = ''income'' then amount t else if type t = ''expense'' then - amount t else 0)"

fun running_balances :: "int \<Rightarrow> transaction list \<Rightarrow> int list" where
  "running_balances b [] = []"
| "running_balances b (t # ts) = (b + signed_amount t) # running_balances (b + signed_amount t) ts"

definition magnitude :: "transaction list \<Rightarrow> int" where
  "magnitude ts = sum_list (map (\<lambda>t. \<bar>amount t\<bar>) ts)"

text \<open>
  A ledger is within the exact range of the doubles when the magnitude of the opening
  balance and the magnitudes of all amounts together do not exceed 2 to the power 53.
\<close>

definition exact_range :: "int \<Rightarrow> transaction list \<Rightarrow> bool" where
  "exact_range ob ts = (\<bar>ob\<bar> + magnitude ts \<le> 2 ^ 53)"

text \<open>
  The predicate the filter engine applies, read off the code: the keyword is the
  lower-cased and trimmed text of the keyword box, and a control left empty (for the
  keyword: empty after trimming) contributes no condition.
\<close>

definition keyword_of :: "host \<Rightarrow> filter_inputs \<Rightarrow> string" where
  "keyword_of h f = trim h (toLowerCase h (filter_keyword f))"

definition amount_in_range ::
  "host \<Rightarrow> filter_inputs \<Rightarrow> transaction \<Rightarrow> bool" where
  "amount_in_range h f t =
     (js_le (if filter_min_amount f \<noteq> [] then parseFloat h (filter_min_amount f) else Fin 0)
            (Fin (of_int (amount t))) \<and>
      js_le (Fin (of_int (amount t)))
            (if filter_max_amount f \<noteq> [] then parseFloat h (filter_max_amount f) else PosInf))"

definition matches ::
  "host \<Rightarrow> filter_inputs \<Rightarrow> transaction \<Rightarrow> bool" where
  "matches h f t =
     ((filter_start_date f = [] \<or> filter_start_date f \<le> date t) \<and>
      (filter_end_date f = [] \<or> date t \<le> filter_end_date f) \<and>
      (keyword_of h f = [] \<or>
         str_includes (toLowerCase h (description t)) (keyword_of h f) \<or>
         str_includes (toLowerCase h (client t)) (keyword_of h f)) \<and>
      ((filter_min_amount f = [] \<and> filter_max_amount f = []) \<or> amount_in_range h f t) \<and>
      (filter_account_subject f = [] \<or>
         loose_eq h (account_subject_id t) (filter_account_subject f)))"

definition no_options :: "host \<Rightarrow> filter_inputs \<Rightarrow> bool" where
  "no_options h f =
     (filter_start_date f = [] \<and> filter_end_date f = [] \<and> keyword_of h f = [] \<and>
      filter_min_amount f = [] \<and> filter_max_amount f = [] \<and> filter_account_subject f = [])"

text \<open>
  The predicate as the specification words it: the keyword condition is a case-insensitive
  substring match of the keyword that was entered, on the description or the counterparty.
\<close>

definition spec_matches ::
  "host \<Rightarrow> filter_inputs \<Rightarrow> transaction \<Rightarrow> bool" where
  "spec_matches h f t =
     ((filter_start_date f = [] \<or> filter_start_date f \<le> date t) \<and>
      (filter_end_date f = [] \<or> date t \<le> filter_end_date f) \<and>
      (filter_keyword f = [] \<or>
         str_includes (toLowerCase h (description t)) (toLowerCase h (filter_keyword f)) \<or>
         str_includes (toLowerCase h (client t)) (toLowerCase h (filter_keyword f))) \<and>
      ((filter_min_amount f = [] \<and> filter_max_amount f = []) \<or> amount_in_range h f t) \<and>
      (filter_account_subject f = [] \<or>
         loose_eq h (account_subject_id t) (filter_account_subject f)))"

subsection \<open>A host for the examples\<close>

text \<open>
  Functions that agree with the JavaScript built-ins on the texts of the examples below:
  ASCII letters for \<open>toLowerCase\<close>, ASCII white space for \<open>trim\<close>, non-empty strings of
  decimal digits for \<open>parseFloat\<close> and the conversion to a number, the three characters
  that a text node escapes for \<open>escapeHtml\<close>, and for an inherited member the text V8 makes
  of a built-in function, or of the prototype object for \<open>__proto__\<close>. No example prints a
  number beyond 2 to the power 53.
\<close>

definition ascii_lower :: "char \<Rightarrow> char" where
  "ascii_lower c =
     (case map_of (zip ''ABCDEFGHIJKLMNOPQRSTUVWXYZ'' ''abcdefghijklmnopqrstuvwxyz'') c of
        None \<Rightarrow> c | Some l \<Rightarrow> l)"

definition is_space :: "char \<Rightarrow> bool" where
  "is_space c = (c \<in> set [CHR 0x20, CHR 0x09, CHR 0x0A, CHR 0x0B, CHR 0x0C, CHR 0x0D])"

definition ascii_trim :: "string \<Rightarrow> string" where
  "ascii_trim s = rev (dropWhile is_space (rev (dropWhile is_space s)))"

definition digit_value :: "char \<Rightarrow> nat option" where
  "digit_value c = map_of (zip ''0123456789'' [0, 1, 2, 3, 4, 5, 6, 7, 8, 9]) c"

definition decimal_number :: "string \<Rightarrow> jsnum" where
  "decimal_number s =
     (if s \<noteq> [] \<and> list_all (\<lambda>c. digit_value c \<noteq> None) s
      then Fin (real (foldl (\<lambda>n c. 10 * n + (case digit_value c of None \<Rightarrow> 0 | Some d \<Rightarrow> d)) 0 s))
      else NaN)"

definition html_text :: "string \<Rightarrow> string" where
  "html_text s =
     concat (map (\<lambda>c. if c = CHR ''&'' then ''&amp;''
                      else if c = CHR ''<'' then ''&lt;''
                      else if c = CHR ''>'' then ''&gt;''
                      else [c]) s)"

definition native_text :: "string \<Rightarrow> string" where
  "native_text name =
     (if name = ''__proto__'' then ''[object Object]''
      else if name = ''constructor'' then ''function Object() { [native code] }''
      else ''function '' @ name @ ''() { [native code] }'')"

definition example_host :: host where
  "example_host =
     \<lparr>toLowerCase = map ascii_lower, trim = ascii_trim, parseFloat = decimal_number,
      toNumber = decimal_number, escapeHtml = html_text, inherited_text = native_text,
      large_number_text = decimal_text\<rparr>"

subsection \<open>Example ledgers and filters\<close>

definition example_tx ::
  "string \<Rightarrow> string \<Rightarrow> string \<Rightarrow> string \<Rightarrow> int \<Rightarrow> transaction" where
  "example_tx d ty descr cl amt =
     \<lparr>tx_id = ''1'', date = d, type = ty, description = descr, client = cl, amount = amt,
      account_subject_id = None, sub_account_id = None, taxType = []\<rparr>"

definition example_app :: "int \<Rightarrow> transaction list \<Rightarrow> app" where
  "example_app ob ts =
     \<lparr>books = [\<lparr>book_id = 1, businessName = ''Shop'', accountName = ''Cash'',
                 book_settings = \<lparr>openingBalance = ob, exportFormat = ''mf''\<rparr>,
                 transactions = ts\<rparr>],
      currentBookId = Some 1,
      subscription_plan = Some ''free'',
      accountSubjects = []\<rparr>"

definition no_filter :: filter_inputs where
  "no_filter =
     \<lparr>filter_start_date = [], filter_end_date = [], filter_keyword = [],
      filter_min_amount = [], filter_max_amount = [], filter_account_subject = []\<rparr>"

definition keyword_only :: "string \<Rightarrow> filter_inputs" where
  "keyword_only k =
     \<lparr>filter_start_date = [], filter_end_date = [], filter_keyword = k,
      filter_min_amount = [], filter_max_amount = [], filter_account_subject = []\<rparr>"

text \<open>Opening balance 5000 in mind: an income of 3000, then an expense of 2000.\<close>

definition scenario_B :: "transaction list" where
  "scenario_B =
     [example_tx ''2024-01-05'' ''income'' ''Sale'' ''Taxi Co.'' 3000,
      example_tx ''2024-01-06'' ''expense'' ''Taxi fare to airport'' [] 2000]"

text \<open>
  A filter with every kind of option but the account subject, and a ledger with
  transactions on, inside and outside each of its bounds.
\<close>

definition taxi_filter :: filter_inputs where
  "taxi_filter =
     \<lparr>filter_start_date = ''2024-01-05'', filter_end_date = ''2024-01-06'',
      filter_keyword = ''taxi '', filter_min_amount = ''1000'', filter_max_amount = ''5000'',
      filter_account_subject = []\<rparr>"

definition ledger_C :: "transaction list" where
  "ledger_C =
     [example_tx ''2024-01-04'' ''expense'' ''Taxi early'' [] 1500,
      example_tx ''2024-01-05'' ''expense'' ''Taxi fare to airport'' [] 5000,
      example_tx ''2024-01-05'' ''income'' ''Consulting'' ''Taxi Co.'' 1000,
      example_tx ''2024-01-06'' ''expense'' ''Lunch'' ''Cafe'' 1200,
      example_tx ''2024-01-06'' ''expense'' ''TAXI'' [] 999,
      example_tx ''2024-01-06'' ''expense'' ''taxi'' [] 5001,
      example_tx ''2024-01-07'' ''expense'' ''Taxi late'' [] 1500]"

subsection \<open>Reference notions and examples for the export formatter\<close>

text \<open>The five classification keys of the tax tables.\<close>

definition tax_keys :: "string list" where
  "tax_keys = [''taxable-10'', ''taxable-8'', ''non-taxable'', ''tax-exempt'', ''out-of-scope'']"

text \<open>
  The lines each generator appends, one for each transaction: for the basic dialect with
  the balance the loop has reached, for mf and yayoi with the index of the transaction.
\<close>

fun basic_balances :: "int \<Rightarrow> transaction list \<Rightarrow> int list" where
  "basic_balances bal [] = []"
| "basic_balances bal (t # ts) = basic_balance bal t # basic_balances (basic_balance bal t) ts"

definition basic_lines :: "host \<Rightarrow> app \<Rightarrow> transaction list \<Rightarrow> string list" where
  "basic_lines h a ts =
     map (\<lambda>(bal, t). basic_row h a bal t)
       (zip (basic_balances (or_zero (openingBalance (getCurrentSettings a))) ts) ts)"

definition mf_lines :: "host \<Rightarrow> transaction list \<Rightarrow> string list" where
  "mf_lines h ts = map (\<lambda>(index, t). mf_row h index t) (enumerate 0 ts)"

definition freee_lines :: "host \<Rightarrow> transaction list \<Rightarrow> string list" where
  "freee_lines h ts = map (freee_row h) ts"

definition yayoi_lines :: "host \<Rightarrow> transaction list \<Rightarrow> string list" where
  "yayoi_lines h ts = map (\<lambda>(index, t). yayoi_row h index t) (enumerate 0 ts)"

text \<open>
  The CSV texts a download can hold for the transactions \<open>ts\<close>: the byte-order mark, the
  header of one of the four dialects, and the lines of that dialect.
\<close>

definition export_payloads :: "host \<Rightarrow> app \<Rightarrow> transaction list \<Rightarrow> string list" where
  "export_payloads h a ts =
     [BOM @ header_basic @ concat (basic_lines h a ts),
      BOM @ header_mf @ concat (mf_lines h ts),
      BOM @ header_freee @ concat (freee_lines h ts),
      BOM @ header_yayoi @ concat (yayoi_lines h ts)]"

text \<open>
  The records of a CSV text as RFC 4180 reads it: fields are separated by commas and
  records by line feeds; a field that begins with a double quote runs to the next single
  double quote, a doubled one standing for the character itself.
\<close>

datatype csv_mode = FieldStart | Unquoted | Quoted | QuoteSeen

fun csv_scan :: "csv_mode \<Rightarrow> string \<Rightarrow> string list \<Rightarrow> string \<Rightarrow> string list list" where
  "csv_scan m cell cells [] =
     (if m = FieldStart \<and> cells = [] then [] else [cells @ [cell]])"
| "csv_scan Quoted cell cells (ch # rest) =
     (if ch = CHR 0x22 then csv_scan QuoteSeen cell cells rest
      else csv_scan Quoted (cell @ [ch]) cells rest)"
| "csv_scan m cell cells (ch # rest) =
     (if ch = CHR 0x22 \<and> m = QuoteSeen then csv_scan Quoted (cell @ [ch]) cells rest
      else if ch = CHR 0x22 \<and> m = FieldStart then csv_scan Quoted cell cells rest
      else if ch = CHR '','' then csv_scan FieldStart [] (cells @ [cell]) rest
      else if ch = CHR 0x0A then (cells @ [cell]) # csv_scan FieldStart [] [] rest
      else csv_scan Unquoted (cell @ [ch]) cells rest)"

definition csv_records :: "string \<Rightarrow> string list list" where
  "csv_records text = csv_scan FieldStart [] [] text"

text \<open>Texts joined by commas.\<close>

fun join_commas :: "string list \<Rightarrow> string" where
  "join_commas [] = []"
| "join_commas [c] = c"
| "join_commas (c # cs) = c @ '','' @ join_commas cs"

text \<open>
  A book whose only account subject, number 1, is named \<open>A","B\<close>, and an income of 3000
  booked on that subject.
\<close>

definition quoted_subject_app :: app where
  "quoted_subject_app =
     \<lparr>books = [\<lparr>book_id = 1, businessName = ''Shop'', accountName = ''Cash'',
                 book_settings = \<lparr>openingBalance = 5000, exportFormat = ''mf''\<rparr>,
                 transactions = []\<rparr>],
      currentBookId = Some 1,
      subscription_plan = Some ''free'',
      accountSubjects =
        [\<lparr>subject_id = 1, subject_name = ''A'' @ dquote @ '','' @ dquote @ ''B'',
          sub_accounts = []\<rparr>]\<rparr>"

definition subject_income :: transaction where
  "subject_income =
     \<lparr>tx_id = ''1'', date = ''2024-01-05'', type = ''income'', description = ''Sale'',
      client = ''Taxi Co.'', amount = 3000, account_subject_id = Some 1,
      sub_account_id = None, taxType = []\<rparr>"

text \<open>An expense whose counterparty holds a comma and a quoted word.\<close>

definition quoted_client_tx :: transaction where
  "quoted_client_tx =
     example_tx ''2024-01-06'' ''expense'' ''Dinner'' (''Smith, '' @ dquote @ ''Bob'' @ dquote) 4000"

text \<open>
  A page load with a token: the API answers with one book that opens at 5000 and has no
  export format, the plan \<open>free\<close>, no account subjects, and the two transactions of the
  running example.
\<close>

definition example_server :: server where
  "example_server =
     \<lparr>isAuthenticated = True,
      getBooks = Some [\<lparr>api_book_id = 1, business_name = ''Shop'', account_name = ''Cash'',
                        opening_balance = Some 5000, export_format = None\<rparr>],
      getSubscription = Some ''free'',
      last_book_id = None,
      getAccountSubjects = (\<lambda>bookId. Some []),
      getTransactions = (\<lambda>bookId. Some
        [\<lparr>api_id = 1, api_date = ''2024-01-05'', api_type = ''income'',
          api_description = ''Sale'', api_client = Some ''Taxi Co.'', api_amount = 3000,
          api_account_subject_id = None, api_sub_account_id = None, api_tax_code = None\<rparr>,
         \<lparr>api_id = 2, api_date = ''2024-01-06'', api_type = ''expense'',
          api_description = ''Taxi fare to airport'', api_client = None, api_amount = 2000,
          api_account_subject_id = None, api_sub_account_id = None, api_tax_code = None\<rparr>])\<rparr>"

definition loaded_income :: transaction where
  "loaded_income =
     \<lparr>tx_id = ''1'', date = ''2024-01-05'', type = ''income'', description = ''Sale'',
      client = ''Taxi Co.'', amount = 3000, account_subject_id = None, sub_account_id = None,
      taxType = []\<rparr>"

definition loaded_expense :: transaction where
  "loaded_expense =
     \<lparr>tx_id = ''2'', date = ''2024-01-06'', type = ''expense'',
      description = ''Taxi fare to airport'', client = [], amount = 2000,
      account_subject_id = None, sub_account_id = None, taxType = []\<rparr>"

definition loaded_app :: app where
  "loaded_app =
     \<lparr>books = [\<lparr>book_id = 1, businessName = ''Shop'', accountName = ''Cash'',
                 book_settings = \<lparr>openingBalance = 5000, exportFormat = ''mf''\<rparr>,
                 transactions = [loaded_income, loaded_expense]\<rparr>],
      currentBookId = Some 1,
      subscription_plan = Some ''free'',
      accountSubjects = []\<rparr>"

subsection \<open>Reference notions and examples for coupons\<close>

text \<open>
  A coupon is usable at the time \<open>now\<close> for the requested plan, the window read as the
  database orders it: the coupon is active, each bound that is set stands on the right side
  of the text \<open>now\<close> in the order of the stored values, its redemption count is strictly
  below its cap where a cap is set, and its plan restriction, where set, is the requested
  plan.
\<close>

definition coupon_usable ::
  "string \<Rightarrow> string option \<Rightarrow> coupon \<Rightarrow> bool" where
  "coupon_usable now plan c =
     (is_active c = Some 1 \<and>
      (case valid_from c of None \<Rightarrow> True | Some from \<Rightarrow> sql_value_le from (SqlText now)) \<and>
      (case valid_until c of None \<Rightarrow> True | Some until \<Rightarrow> sql_value_le (SqlText now) until) \<and>
      (case max_redemptions c of
         None \<Rightarrow> True
       | Some cap \<Rightarrow> (case redemption_count c of None \<Rightarrow> False | Some n \<Rightarrow> n < cap)) \<and>
      (case plan_restriction c of None \<Rightarrow> True | Some r \<Rightarrow> plan = Some r))"




text \<open>
  Coupons for the plan \<open>basic\<close>, valid during 2024, with the given code, cap and count;
  a database with a fresh coupon, a used-up one, one recorded redemption, and the user 42.
\<close>

definition example_coupon ::
  "string \<Rightarrow> int option \<Rightarrow> int option \<Rightarrow> coupon" where
  "example_coupon cd cap n =
     \<lparr>coupon_id = 1, code = cd, discount_type = ''percentage'', discount_value = 20,
      plan_restriction = Some ''basic'', max_redemptions = cap, redemption_count = n,
      valid_from = Some (SqlText ''2024-01-01 00:00:00''),
      valid_until = Some (SqlText ''2024-12-31 23:59:59''),
      is_active = Some 1, stripe_coupon_id = None\<rparr>"

definition example_db :: database where
  "example_db =
     \<lparr>coupons = [example_coupon ''WELCOME'' (Some 1) (Some 0),
                 example_coupon ''USED'' (Some 1) (Some 1)],
      coupon_redemptions =
        [\<lparr>redemption_id = 1, redeemed_coupon_id = 1, redeemed_user_id = 7,
          redeemed_at = Some ''2024-03-01 09:00:00''\<rparr>],
      users = [\<lparr>user_id = 42, user_email = ''owner@example.com'', user_name = ''Owner''\<rparr>]\<rparr>"

definition validate_request ::
  "string \<Rightarrow> string \<Rightarrow> validate_body option" where
  "validate_request cd pl = Some \<lparr>body_code = JsString cd, body_plan = JsString pl\<rparr>"

section \<open>Bearer tokens (generateToken, verifyToken)\<close>

text \<open>
  The values \<open>JSON.parse\<close> can return. A number is a \<open>jsnum\<close>, since a JSON number too
  large for a double parses to infinity. An object is the list of its members, one entry
  for each name.
\<close>

datatype json =
  JNull
| JBool bool
| JNumber jsnum
| JString string
| JArray "json list"
| JObject "(string \<times> json) list"

text \<open>What reading a property yields: \<open>undefined\<close>, or a value.\<close>

datatype jsvalue = Undefined | Value json

text \<open>
  The built-ins the token code calls: \<open>btoa\<close>, \<open>atob\<close> and \<open>JSON.parse\<close> (\<open>None\<close> when they
  throw), \<open>JSON.stringify\<close>, and the conversion to a number of a string, an array or an
  object. They are parameters of the model.
\<close>

record codec =
  btoa :: "string \<Rightarrow> string"
  atob :: "string \<Rightarrow> string option"
  JSON_stringify :: "json \<Rightarrow> string"
  JSON_parse :: "string \<Rightarrow> json option"
  coerce_to_number :: "json \<Rightarrow> jsnum"

text \<open>
  \<open>payload.exp\<close> and \<open>payload.userId\<close>: reading a property of \<open>null\<close> throws a
  \<open>TypeError\<close> (\<open>None\<close>); an object yields the member of that name or \<open>undefined\<close>; a
  boolean, a number, a string and an array have neither property.
\<close>

fun get_property :: "json \<Rightarrow> string \<Rightarrow> jsvalue option" where
  "get_property JNull k = None"
| "get_property (JObject members) k =
     Some (case map_of members k of None \<Rightarrow> Undefined | Some v \<Rightarrow> Value v)"
| "get_property _ k = Some Undefined"

text \<open>
  The operand conversion of \<open>payload.exp < n\<close>: \<open>undefined\<close> is \<open>NaN\<close>, \<open>null\<close> is 0,
  \<open>true\<close> is 1; a comparison with \<open>NaN\<close> is false.
\<close>

fun to_number :: "codec \<Rightarrow> jsvalue \<Rightarrow> jsnum" where
  "to_number c Undefined = NaN"
| "to_number c (Value JNull) = Fin 0"
| "to_number c (Value (JBool b)) = Fin (if b then 1 else 0)"
| "to_number c (Value (JNumber n)) = n"
| "to_number c (Value v) = coerce_to_number c v"

fun js_lt :: "jsnum \<Rightarrow> jsnum \<Rightarrow> bool" where
  "js_lt NaN _ = False"
| "js_lt _ NaN = False"
| "js_lt (Fin a) (Fin b) = (a < b)"
| "js_lt NegInf NegInf = False"
| "js_lt NegInf _ = True"
| "js_lt PosInf _ = False"
| "js_lt (Fin a) PosInf = True"
| "js_lt (Fin a) NegInf = False"

text \<open>
  \<open>now\<close> is \<open>Date.now()\<close>, in milliseconds; \<open>Math.floor(Date.now() / 1000)\<close> is
  \<open>now div 1000\<close>. The result \<open>None\<close> of \<open>verifyToken\<close> is \<open>null\<close>, and \<open>Some v\<close> is the
  object \<open>{userId: v}\<close>; the \<open>catch\<close> clause turns every exception into \<open>null\<close>.
\<close>

definition generateToken :: "codec \<Rightarrow> int \<Rightarrow> int \<Rightarrow> string" where
  "generateToken c now userId =
     (let payload = JObject [(''userId'', JNumber (Fin (of_int userId))),
                             (''exp'', JNumber (Fin (of_int (now div 1000 + 60 * 60 * 24 * 30))))]
      in btoa c (JSON_stringify c payload))"

definition verifyToken ::
  "codec \<Rightarrow> int \<Rightarrow> string \<Rightarrow> jsvalue option" where
  "verifyToken c now token =
     (case atob c token of
        None \<Rightarrow> None
      | Some text \<Rightarrow>
          (case JSON_parse c text of
             None \<Rightarrow> None
           | Some payload \<Rightarrow>
               (case get_property payload ''exp'' of
                  None \<Rightarrow> None
                | Some exp_v \<Rightarrow>
                    if js_lt (to_number c exp_v) (Fin (of_int (now div 1000))) then None
                    else (case get_property payload ''userId'' of
                            None \<Rightarrow> None
                          | Some userId \<Rightarrow> Some userId))))"

subsection \<open>Reference notions and examples for tokens\<close>

text \<open>The payload of a token for a user with a given expiry, and thirty days in seconds.\<close>

definition token_payload :: "int \<Rightarrow> int \<Rightarrow> json" where
  "token_payload userId expiry =
     JObject [(''userId'', JNumber (Fin (of_int userId))), (''exp'', JNumber (Fin (of_int expiry)))]"

definition thirty_days :: int where
  "thirty_days = 30 * 86400"

text \<open>
  \<open>verifyToken\<close> as the specification words it: the user of a payload \<open>{userId, exp}\<close>
  whose expiry has not passed, and \<open>null\<close> for every other token.
\<close>

fun claimed_result :: "int \<Rightarrow> json \<Rightarrow> jsvalue option" where
  "claimed_result now_s (JObject [(k1, JNumber u), (k2, JNumber e)]) =
     (if k1 = ''userId'' \<and> k2 = ''exp'' \<and> \<not> js_lt e (Fin (of_int now_s))
      then Some (Value (JNumber u)) else None)"
| "claimed_result now_s _ = None"

definition claimed_verifyToken ::
  "codec \<Rightarrow> int \<Rightarrow> string \<Rightarrow> jsvalue option" where
  "claimed_verifyToken c now token =
     (case atob c token of
        None \<Rightarrow> None
      | Some text \<Rightarrow>
          (case JSON_parse c text of
             None \<Rightarrow> None
           | Some payload \<Rightarrow> claimed_result (now div 1000) payload))"

text \<open>
  A codec for the examples: standard base64 with padding, and JSON texts of objects whose
  members are non-negative integers, as the tokens of the examples are.
\<close>

definition b64_alphabet :: string where
  "b64_alphabet = ''ABCDEFGHIJKLMNOPQRSTUVWXYZabcdefghijklmnopqrstuvwxyz0123456789+/''"

fun b64_encode :: "nat list \<Rightarrow> string" where
  "b64_encode [] = []"
| "b64_encode [x] =
     [b64_alphabet ! (x div 4), b64_alphabet ! ((x mod 4) * 16), CHR ''='', CHR ''='']"
| "b64_encode [x, y] =
     [b64_alphabet ! (x div 4), b64_alphabet ! ((x mod 4) * 16 + y div 16),
      b64_alphabet ! ((y mod 16) * 4), CHR ''='']"
| "b64_encode (x # y # z # rest) =
     [b64_alphabet ! (x div 4), b64_alphabet ! ((x mod 4) * 16 + y div 16),
      b64_alphabet ! ((y mod 16) * 4 + z div 64), b64_alphabet ! (z mod 64)] @ b64_encode rest"

definition b64_value :: "char \<Rightarrow> nat option" where
  "b64_value ch =
     (let n = of_char ch :: nat
      in if 65 \<le> n \<and> n \<le> 90 then Some (n - 65)
         else if 97 \<le> n \<and> n \<le> 122 then Some (n - 71)
         else if 48 \<le> n \<and> n \<le> 57 then Some (n + 4)
         else if n = 43 then Some 62
         else if n = 47 then Some 63
         else None)"

fun b64_decode :: "string \<Rightarrow> nat list option" where
  "b64_decode [] = Some []"
| "b64_decode (p # q # r # s # rest) =
     (case (b64_value p, b64_value q) of
        (Some x, Some y) \<Rightarrow>
          (if rest = [] \<and> r = CHR ''='' \<and> s = CHR ''='' then Some [x * 4 + y div 16]
           else (case b64_value r of
                   None \<Rightarrow> None
                 | Some z \<Rightarrow>
                     (if rest = [] \<and> s = CHR ''=''
                      then Some [x * 4 + y div 16, (y mod 16) * 16 + z div 4]
                      else (case (b64_value s, b64_decode rest) of
                              (Some w, Some bytes) \<Rightarrow>
                                Some ([x * 4 + y div 16, (y mod 16) * 16 + z div 4,
                                       (z mod 4) * 64 + w] @ bytes)
                            | _ \<Rightarrow> None))))
      | _ \<Rightarrow> None)"
| "b64_decode _ = None"

definition example_btoa :: "string \<Rightarrow> string" where
  "example_btoa s = b64_encode (map of_char s)"

definition example_atob :: "string \<Rightarrow> string option" where
  "example_atob s = map_option (map char_of) (b64_decode s)"

definition member_text :: "string \<times> json \<Rightarrow> string" where
  "member_text m =
     dquote @ fst m @ dquote @ '':'' @
     (case snd m of
        JNumber (Fin r) \<Rightarrow> decimal_text \<lfloor>r\<rfloor>
      | JString s \<Rightarrow> dquote @ s @ dquote
      | JBool b \<Rightarrow> (if b then ''true'' else ''false'')
      | _ \<Rightarrow> ''null'')"

definition example_stringify :: "json \<Rightarrow> string" where
  "example_stringify p =
     (case p of
        JObject members \<Rightarrow> ''{'' @ join_commas (map member_text members) @ ''}''
      | _ \<Rightarrow> ''null'')"

fun split_commas :: "string \<Rightarrow> string list" where
  "split_commas [] = [[]]"
| "split_commas (ch # s) =
     (if ch = CHR '','' then [] # split_commas s
      else (case split_commas s of
              [] \<Rightarrow> [[ch]]
            | w # ws \<Rightarrow> (ch # w) # ws))"

definition parse_member :: "string \<Rightarrow> (string \<times> json) option" where
  "parse_member m =
     (case m of
        [] \<Rightarrow> None
      | q # rest \<Rightarrow>
          (if q \<noteq> CHR 0x22 then None
           else (let key = takeWhile (\<lambda>ch. ch \<noteq> CHR 0x22) rest
                 in case drop (length key + 1) rest of
                      [] \<Rightarrow> None
                    | colon # v \<Rightarrow>
                        (if colon \<noteq> CHR '':'' then None
                         else (case decimal_number v of
                                 Fin r \<Rightarrow> Some (key, JNumber (Fin r))
                               | _ \<Rightarrow> None)))))"

definition example_parse :: "string \<Rightarrow> json option" where
  "example_parse s =
     (if s = ''null'' then Some JNull
      else if s = ''{}'' then Some (JObject [])
      else if 2 \<le> length s \<and> hd s = CHR ''{'' \<and> last s = CHR ''}''
           then map_option JObject (those (map parse_member (split_commas (butlast (tl s)))))
      else None)"

definition example_codec :: codec where
  "example_codec =
     \<lparr>btoa = example_btoa, atob = example_atob, JSON_stringify = example_stringify,
      JSON_parse = example_parse, coerce_to_number = (\<lambda>v. NaN)\<rparr>"

text \<open>
  The token issued to user 42 at 1700000000000 ms, which expires at 1702592000 s, and its
  JSON text; a token whose payload names user 1 and has no expiry.
\<close>

definition example_token :: string where
  "example_token = ''eyJ1c2VySWQiOjQyLCJleHAiOjE3MDI1OTIwMDB9''"

definition example_token_text :: string where
  "example_token_text =
     ''{'' @ dquote @ ''userId'' @ dquote @ '':42,'' @ dquote @ ''exp'' @ dquote @ '':1702592000}''"

definition no_expiry_token :: string where
  "no_expiry_token = ''eyJ1c2VySWQiOjF9''"

definition no_expiry_text :: string where
  "no_expiry_text = ''{'' @ dquote @ ''userId'' @ dquote @ '':1}''"

section \<open>The coupon route behind authMiddleware\<close>








subsection \<open>Reference notions and examples for the route\<close>







section \<open>Verified properties\<close>

subsection \<open>Balance accumulator\<close>

lemma or_zero_id: "or_zero x = x"
  by (simp add: or_zero_def)

lemma double_round_exact: "\<bar>x\<bar> \<le> 2 ^ 53 \<Longrightarrow> double_round x = x"
  by (simp add: double_round_def)

lemma js_add_exact: "\<bar>x + y\<bar> \<le> 2 ^ 53 \<Longrightarrow> js_add x y = x + y"
  by (simp add: js_add_def double_round_exact)

lemma js_sub_exact: "\<bar>x - y\<bar> \<le> 2 ^ 53 \<Longrightarrow> js_sub x y = x - y"
  by (simp add: js_sub_def double_round_exact)

lemma magnitude_Nil: "magnitude [] = 0"
  by (simp add: magnitude_def)

lemma magnitude_Cons: "magnitude (t # ts) = \<bar>amount t\<bar> + magnitude ts"
  by (simp add: magnitude_def)

lemma magnitude_nonneg: "0 \<le> magnitude ts"
  by (induction ts) (simp_all add: magnitude_Nil magnitude_Cons)

lemma magnitude_filter: "magnitude (filter P ts) \<le> magnitude ts"
proof (induction ts)
  case Nil
  show ?case by simp
next
  case (Cons t ts)
  have "0 \<le> \<bar>amount t\<bar>" by simp
  then show ?case
    using Cons by (simp add: magnitude_Cons) linarith
qed

lemma sum_income_Nil: "sum_income [] = 0"
  by (simp add: sum_income_def)

lemma sum_expense_Nil: "sum_expense [] = 0"
  by (simp add: sum_expense_def)

lemma sum_income_Cons:
  "sum_income (t # ts) = (if type t = ''income'' then amount t else 0) + sum_income ts"
  by (simp add: sum_income_def)

lemma sum_expense_Cons:
  "sum_expense (t # ts) = (if type t = ''expense'' then amount t else 0) + sum_expense ts"
  by (simp add: sum_expense_def)

lemma foldl_amounts:
  "\<bar>z\<bar> + magnitude xs \<le> 2 ^ 53 \<Longrightarrow>
   foldl (\<lambda>sum t. js_add sum (amount t)) z xs = z + sum_list (map amount xs)"
proof (induction xs arbitrary: z)
  case Nil
  show ?case by simp
next
  case (Cons t xs)
  have m: "0 \<le> magnitude xs" by (rule magnitude_nonneg)
  have b: "\<bar>z\<bar> + \<bar>amount t\<bar> + magnitude xs \<le> 2 ^ 53"
    using Cons.prems by (simp add: magnitude_Cons)
  have e: "js_add z (amount t) = z + amount t"
    using b m by (intro js_add_exact) linarith
  have "\<bar>z + amount t\<bar> + magnitude xs \<le> 2 ^ 53"
    using b by linarith
  then have "foldl (\<lambda>sum t. js_add sum (amount t)) (z + amount t) xs =
      z + amount t + sum_list (map amount xs)"
    by (rule Cons.IH)
  then show ?case by (simp add: e)
qed

lemma updateTotals_sums:
  assumes "magnitude ts \<le> 2 ^ 53"
  shows "updateTotals ts b =
     \<lparr>total_income = sum_income ts, total_expense = sum_expense ts, final_balance = b\<rparr>"
proof -
  have i: "\<bar>0::int\<bar> + magnitude (filter (\<lambda>t. type t = ''income'') ts) \<le> 2 ^ 53"
    using assms magnitude_filter [of "\<lambda>t. type t = ''income''" ts] by simp
  have e: "\<bar>0::int\<bar> + magnitude (filter (\<lambda>t. type t = ''expense'') ts) \<le> 2 ^ 53"
    using assms magnitude_filter [of "\<lambda>t. type t = ''expense''" ts] by simp
  show ?thesis
    by (simp add: updateTotals_def foldl_amounts [OF i] foldl_amounts [OF e]
          sum_income_def sum_expense_def)
qed

lemma render_step_exact:
  assumes "\<bar>balance s\<bar> + \<bar>amount t\<bar> \<le> 2 ^ 53"
    and "\<bar>totalIncome s\<bar> + \<bar>amount t\<bar> \<le> 2 ^ 53"
    and "\<bar>totalExpense s\<bar> + \<bar>amount t\<bar> \<le> 2 ^ 53"
  shows "render_step s t =
     \<lparr>balance = balance s + signed_amount t,
      totalIncome = totalIncome s + (if type t = ''income'' then amount t else 0),
      totalExpense = totalExpense s + (if type t = ''expense'' then amount t else 0)\<rparr>"
proof -
  have a: "\<bar>amount t\<bar> \<le> 2 ^ 53"
    using assms(1) by linarith
  have "js_sub (amount t) 0 = amount t" "js_sub 0 (amount t) = - amount t" "js_sub 0 0 = 0"
    using a by (simp_all add: js_sub_exact)
  moreover have "js_add (balance s) (amount t) = balance s + amount t"
    "js_add (balance s) (- amount t) = balance s - amount t"
    "js_add (balance s) 0 = balance s"
    using assms(1) by (simp_all add: js_add_exact)
  moreover have "js_add (totalIncome s) (amount t) = totalIncome s + amount t"
    "js_add (totalIncome s) 0 = totalIncome s"
    using assms(2) by (simp_all add: js_add_exact)
  moreover have "js_add (totalExpense s) (amount t) = totalExpense s + amount t"
    "js_add (totalExpense s) 0 = totalExpense s"
    using assms(3) by (simp_all add: js_add_exact)
  ultimately show ?thesis
    by (simp add: render_step_def signed_amount_def Let_def)
qed

lemma render_rows_exact:
  assumes "\<bar>balance s\<bar> + magnitude ts \<le> 2 ^ 53"
    and "\<bar>totalIncome s\<bar> + magnitude ts \<le> 2 ^ 53"
    and "\<bar>totalExpense s\<bar> + magnitude ts \<le> 2 ^ 53"
  shows "snd (render_rows s ts) =
     \<lparr>balance = balance s + sum_income ts - sum_expense ts,
      totalIncome = totalIncome s + sum_income ts,
      totalExpense = totalExpense s + sum_expense ts\<rparr>
   \<and> map row_balance (fst (render_rows s ts)) = running_balances (balance s) ts"
  using assms
proof (induction ts arbitrary: s)
  case Nil
  show ?case by (simp add: sum_income_Nil sum_expense_Nil)
next
  case (Cons t ts)
  let ?s = "render_step s t"
  have m: "0 \<le> magnitude ts" by (rule magnitude_nonneg)
  have b: "\<bar>balance s\<bar> + \<bar>amount t\<bar> + magnitude ts \<le> 2 ^ 53"
    "\<bar>totalIncome s\<bar> + \<bar>amount t\<bar> + magnitude ts \<le> 2 ^ 53"
    "\<bar>totalExpense s\<bar> + \<bar>amount t\<bar> + magnitude ts \<le> 2 ^ 53"
    using Cons.prems by (simp_all add: magnitude_Cons)
  have st: "?s =
     \<lparr>balance = balance s + signed_amount t,
      totalIncome = totalIncome s + (if type t = ''income'' then amount t else 0),
      totalExpense = totalExpense s + (if type t = ''expense'' then amount t else 0)\<rparr>"
    using b m by (intro render_step_exact) linarith+
  have sa: "\<bar>signed_amount t\<bar> \<le> \<bar>amount t\<bar>"
    by (simp add: signed_amount_def)
  have ih: "snd (render_rows ?s ts) =
     \<lparr>balance = balance ?s + sum_income ts - sum_expense ts,
      totalIncome = totalIncome ?s + sum_income ts,
      totalExpense = totalExpense ?s + sum_expense ts\<rparr>
   \<and> map row_balance (fst (render_rows ?s ts)) = running_balances (balance ?s) ts"
  proof (rule Cons.IH)
    show "\<bar>balance ?s\<bar> + magnitude ts \<le> 2 ^ 53"
      using b(1) sa by (simp add: st; linarith?)
    show "\<bar>totalIncome ?s\<bar> + magnitude ts \<le> 2 ^ 53"
      using b(2) by (simp add: st; linarith?)
    show "\<bar>totalExpense ?s\<bar> + magnitude ts \<le> 2 ^ 53"
      using b(3) by (simp add: st; linarith?)
  qed
  obtain rs fin where r: "render_rows ?s ts = (rs, fin)"
    by (cases "render_rows ?s ts")
  have step: "render_rows s (t # ts) = (render_row ?s t # rs, fin)"
    using r by (simp add: Let_def)
  have bal: "balance ?s = balance s + signed_amount t"
    by (simp add: st)
  show ?case
    using ih r
    by (simp add: step bal render_row_def Let_def)
       (simp add: st signed_amount_def sum_income_Cons sum_expense_Cons)
qed

lemma basic_balances_exact:
  assumes "\<forall>t\<in>set ts. type t = ''income'' \<or> type t = ''expense''"
    and "\<bar>bal\<bar> + magnitude ts \<le> 2 ^ 53"
  shows "basic_balances bal ts = running_balances bal ts"
  using assms
proof (induction ts arbitrary: bal)
  case Nil
  show ?case by simp
next
  case (Cons t ts)
  have m: "0 \<le> magnitude ts" by (rule magnitude_nonneg)
  have b: "\<bar>bal\<bar> + \<bar>amount t\<bar> + magnitude ts \<le> 2 ^ 53"
    using Cons.prems(2) by (simp add: magnitude_Cons)
  have ty: "type t = ''income'' \<or> type t = ''expense''"
    using Cons.prems(1) by simp
  have "js_add bal (amount t) = bal + amount t"
    using b m by (intro js_add_exact) linarith
  moreover have "js_sub bal (amount t) = bal - amount t"
    using b m by (intro js_sub_exact) linarith
  ultimately have e: "basic_balance bal t = bal + signed_amount t"
    using ty by (auto simp: basic_balance_def signed_amount_def)
  have "\<bar>signed_amount t\<bar> \<le> \<bar>amount t\<bar>"
    by (simp add: signed_amount_def)
  then have "\<bar>bal + signed_amount t\<bar> + magnitude ts \<le> 2 ^ 53"
    using b by linarith
  moreover have "\<forall>t\<in>set ts. type t = ''income'' \<or> type t = ''expense''"
    using Cons.prems(1) by simp
  ultimately have "basic_balances (bal + signed_amount t) ts =
      running_balances (bal + signed_amount t) ts"
    by (intro Cons.IH)
  then show ?case by (simp add: e)
qed

lemma generateBasicCSV_loop_lines:
  "fst (generateBasicCSV_loop h a (csv, bal) ts) =
     csv @ concat (map (\<lambda>(b, t). basic_row h a b t) (zip (basic_balances bal ts) ts))"
  by (induction ts arbitrary: csv bal) (simp_all add: Let_def)

lemma generateBasicCSV_lines:
  "generateBasicCSV h a ts = header_basic @ concat (basic_lines h a ts)"
  by (simp add: generateBasicCSV_def generateBasicCSV_state_def generateBasicCSV_loop_lines
        basic_lines_def)

lemma generateMFCloudCSV_loop_lines:
  "generateMFCloudCSV_loop h csv n ts =
     csv @ concat (map (\<lambda>(index, t). mf_row h index t) (enumerate n ts))"
  by (induction ts arbitrary: csv n) simp_all

lemma generateMFCloudCSV_lines:
  "generateMFCloudCSV h ts = header_mf @ concat (mf_lines h ts)"
  by (simp add: generateMFCloudCSV_def generateMFCloudCSV_loop_lines mf_lines_def)

lemma generateFreeeCSV_loop_lines:
  "generateFreeeCSV_loop h csv ts = csv @ concat (map (freee_row h) ts)"
  by (induction ts arbitrary: csv) simp_all

lemma generateFreeeCSV_lines:
  "generateFreeeCSV h ts = header_freee @ concat (freee_lines h ts)"
  by (simp add: generateFreeeCSV_def generateFreeeCSV_loop_lines freee_lines_def)

lemma generateYayoiCSV_loop_lines:
  "generateYayoiCSV_loop h csv n ts =
     csv @ concat (map (\<lambda>(index, t). yayoi_row h index t) (enumerate n ts))"
  by (induction ts arbitrary: csv n) simp_all

lemma generateYayoiCSV_lines:
  "generateYayoiCSV h ts = header_yayoi @ concat (yayoi_lines h ts)"
  by (simp add: generateYayoiCSV_def generateYayoiCSV_loop_lines yayoi_lines_def)

lemma renderTransactions_nonempty:
  assumes "filterTransactions h f (getCurrentTransactions a) \<noteq> []"
    and "exact_range (openingBalance (getCurrentSettings a))
           (filterTransactions h f (getCurrentTransactions a))"
  shows "shown_totals (renderTransactions h a f) =
     \<lparr>total_income = sum_income (filterTransactions h f (getCurrentTransactions a)),
      total_expense = sum_expense (filterTransactions h f (getCurrentTransactions a)),
      final_balance = openingBalance (getCurrentSettings a)
         + sum_income (filterTransactions h f (getCurrentTransactions a))
         - sum_expense (filterTransactions h f (getCurrentTransactions a))\<rparr>
   \<and> map row_balance (tbody (renderTransactions h a f)) =
       running_balances (openingBalance (getCurrentSettings a))
         (filterTransactions h f (getCurrentTransactions a))"
proof -
  let ?fl = "filterTransactions h f (getCurrentTransactions a)"
  let ?ob = "openingBalance (getCurrentSettings a)"
  let ?start = "\<lparr>balance = or_zero ?ob, totalIncome = 0, totalExpense = 0\<rparr>"
  have m: "0 \<le> magnitude ?fl" by (rule magnitude_nonneg)
  have r: "\<bar>?ob\<bar> + magnitude ?fl \<le> 2 ^ 53"
    using assms(2) by (simp add: exact_range_def)
  have mag: "magnitude ?fl \<le> 2 ^ 53"
    using r by linarith
  obtain rows fin where rf: "render_rows ?start ?fl = (rows, fin)"
    by (cases "render_rows ?start ?fl")
  have ex: "snd (render_rows ?start ?fl) =
     \<lparr>balance = balance ?start + sum_income ?fl - sum_expense ?fl,
      totalIncome = totalIncome ?start + sum_income ?fl,
      totalExpense = totalExpense ?start + sum_expense ?fl\<rparr>
   \<and> map row_balance (fst (render_rows ?start ?fl)) = running_balances (balance ?start) ?fl"
    using r mag by (intro render_rows_exact) (simp_all add: or_zero_id)
  have bal: "balance fin = ?ob + sum_income ?fl - sum_expense ?fl"
    using ex rf by (simp add: or_zero_id)
  have rows: "map row_balance rows = running_balances ?ob ?fl"
    using ex rf by (simp add: or_zero_id)
  have "renderTransactions h a f =
          \<lparr>tbody = rows, empty_state_shown = False,
           shown_totals = updateTotals ?fl (balance fin)\<rparr>"
    using assms(1) rf by (simp add: renderTransactions_def Let_def)
  then show ?thesis
    by (simp add: updateTotals_sums [OF mag] bal rows)
qed

lemma filter_keyword_only:
  "filterTransactions h (keyword_only k) ts =
     (if trim h (toLowerCase h k) = [] then ts
      else filter (\<lambda>t. str_includes (toLowerCase h (description t)) (trim h (toLowerCase h k)) \<or>
                       str_includes (toLowerCase h (client t)) (trim h (toLowerCase h k))) ts)"
  by (simp add: filterTransactions_def keyword_only_def Let_def)

lemma no_filter_keyword_only: "no_filter = keyword_only []"
  by (simp add: no_filter_def keyword_only_def)

lemma example_trim_lower:
  "trim example_host (toLowerCase example_host []) = []"
  "trim example_host (toLowerCase example_host ''zzz'') = ''zzz''"
  "trim example_host (toLowerCase example_host ''taxi '') = ''taxi''"
  by (simp_all add: example_host_def ascii_trim_def is_space_def ascii_lower_def)

lemma example_app_transactions: "getCurrentTransactions (example_app ob ts) = ts"
  by (simp add: getCurrentTransactions_def getCurrentBook_def example_app_def)

lemma example_app_opening: "openingBalance (getCurrentSettings (example_app ob ts)) = ob"
  by (simp add: getCurrentSettings_def getCurrentBook_def example_app_def)

lemma example_no_filter: "filterTransactions example_host no_filter ts = ts"
  by (simp add: no_filter_keyword_only filter_keyword_only example_trim_lower)

lemma scenario_B_sums: "sum_income scenario_B = 3000" "sum_expense scenario_B = 2000"
  by (simp_all add: sum_income_def sum_expense_def scenario_B_def example_tx_def)

lemma scenario_B_types: "\<forall>t\<in>set scenario_B. type t = ''income'' \<or> type t = ''expense''"
  by (simp add: scenario_B_def example_tx_def)

lemma scenario_B_range: "exact_range 5000 scenario_B"
  by (simp add: exact_range_def magnitude_def scenario_B_def example_tx_def)

lemma scenario_B_balances: "running_balances 5000 scenario_B = [8000, 6000]"
  by (simp add: scenario_B_def example_tx_def signed_amount_def)

text \<open>
  Claim C1, as amended. For every opening balance and transaction list within the exact
  range of the doubles, the accumulator loop of \<open>renderTransactions\<close>, started at the
  opening balance with both totals at zero, ends with the balance
  opening + income - expense and with the two totals equal to the two sums, and the balance
  it writes into each row is the balance after that transaction, an income adding its
  amount and an expense subtracting it, negative or not; \<open>updateTotals\<close> shows the two sums;
  whenever at least one transaction passes the filter, these are the totals and the row
  balances \<open>renderTransactions\<close> shows. On a list whose types are \<open>income\<close> or \<open>expense\<close>
  the text \<open>generateBasicCSV\<close> returns is the header followed by one row for each
  transaction, written with the balance after that transaction.
\<close>

theorem balance_accumulator_invariant:
  "(exact_range ob ts \<longrightarrow>
      snd (render_rows \<lparr>balance = or_zero ob, totalIncome = 0, totalExpense = 0\<rparr> ts) =
        \<lparr>balance = ob + sum_income ts - sum_expense ts,
         totalIncome = sum_income ts,
         totalExpense = sum_expense ts\<rparr>
      \<and> map row_balance
          (fst (render_rows \<lparr>balance = or_zero ob, totalIncome = 0, totalExpense = 0\<rparr> ts)) =
        running_balances ob ts
      \<and> updateTotals ts b =
        \<lparr>total_income = sum_income ts, total_expense = sum_expense ts, final_balance = b\<rparr>)
   \<and> (filterTransactions h f (getCurrentTransactions a) \<noteq> [] \<and>
      exact_range (openingBalance (getCurrentSettings a))
        (filterTransactions h f (getCurrentTransactions a)) \<longrightarrow>
        shown_totals (renderTransactions h a f) =
          \<lparr>total_income = sum_income (filterTransactions h f (getCurrentTransactions a)),
           total_expense = sum_expense (filterTransactions h f (getCurrentTransactions a)),
           final_balance = openingBalance (getCurrentSettings a)
             + sum_income (filterTransactions h f (getCurrentTransactions a))
             - sum_expense (filterTransactions h f (getCurrentTransactions a))\<rparr>
        \<and> map row_balance (tbody (renderTransactions h a f)) =
            running_balances (openingBalance (getCurrentSettings a))
              (filterTransactions h f (getCurrentTransactions a)))
   \<and> ((\<forall>t\<in>set ts. type t = ''income'' \<or> type t = ''expense'') \<and>
      exact_range (openingBalance (getCurrentSettings a)) ts \<longrightarrow>
        generateBasicCSV h a ts =
          header_basic @
          concat (map (\<lambda>(bal, t). basic_row h a bal t)
                    (zip (running_balances (openingBalance (getCurrentSettings a)) ts) ts)))"
proof (intro conjI impI)
  assume r: "exact_range ob ts"
  have m: "0 \<le> magnitude ts" by (rule magnitude_nonneg)
  have b: "\<bar>ob\<bar> + magnitude ts \<le> 2 ^ 53"
    using r by (simp add: exact_range_def)
  have mag: "magnitude ts \<le> 2 ^ 53"
    using b by linarith
  let ?start = "\<lparr>balance = or_zero ob, totalIncome = 0, totalExpense = 0\<rparr>"
  have ex: "snd (render_rows ?start ts) =
     \<lparr>balance = balance ?start + sum_income ts - sum_expense ts,
      totalIncome = totalIncome ?start + sum_income ts,
      totalExpense = totalExpense ?start + sum_expense ts\<rparr>
   \<and> map row_balance (fst (render_rows ?start ts)) = running_balances (balance ?start) ts"
    using b mag by (intro render_rows_exact) (simp_all add: or_zero_id)
  show "snd (render_rows ?start ts) =
        \<lparr>balance = ob + sum_income ts - sum_expense ts,
         totalIncome = sum_income ts, totalExpense = sum_expense ts\<rparr>"
    using ex by (simp add: or_zero_id)
  show "map row_balance (fst (render_rows ?start ts)) = running_balances ob ts"
    using ex by (simp add: or_zero_id)
  show "updateTotals ts b =
        \<lparr>total_income = sum_income ts, total_expense = sum_expense ts, final_balance = b\<rparr>"
    by (rule updateTotals_sums [OF mag])
next
  assume n: "filterTransactions h f (getCurrentTransactions a) \<noteq> [] \<and>
      exact_range (openingBalance (getCurrentSettings a))
        (filterTransactions h f (getCurrentTransactions a))"
  have both: "shown_totals (renderTransactions h a f) =
          \<lparr>total_income = sum_income (filterTransactions h f (getCurrentTransactions a)),
           total_expense = sum_expense (filterTransactions h f (getCurrentTransactions a)),
           final_balance = openingBalance (getCurrentSettings a)
             + sum_income (filterTransactions h f (getCurrentTransactions a))
             - sum_expense (filterTransactions h f (getCurrentTransactions a))\<rparr>
        \<and> map row_balance (tbody (renderTransactions h a f)) =
            running_balances (openingBalance (getCurrentSettings a))
              (filterTransactions h f (getCurrentTransactions a))"
    using n by (intro renderTransactions_nonempty) simp_all
  show "shown_totals (renderTransactions h a f) =
          \<lparr>total_income = sum_income (filterTransactions h f (getCurrentTransactions a)),
           total_expense = sum_expense (filterTransactions h f (getCurrentTransactions a)),
           final_balance = openingBalance (getCurrentSettings a)
             + sum_income (filterTransactions h f (getCurrentTransactions a))
             - sum_expense (filterTransactions h f (getCurrentTransactions a))\<rparr>"
    using both by (rule conjunct1)
  show "map row_balance (tbody (renderTransactions h a f)) =
            running_balances (openingBalance (getCurrentSettings a))
              (filterTransactions h f (getCurrentTransactions a))"
    using both by (rule conjunct2)
next
  assume t: "(\<forall>t\<in>set ts. type t = ''income'' \<or> type t = ''expense'') \<and>
      exact_range (openingBalance (getCurrentSettings a)) ts"
  then have "basic_balances (or_zero (openingBalance (getCurrentSettings a))) ts =
      running_balances (openingBalance (getCurrentSettings a)) ts"
    by (simp add: or_zero_id basic_balances_exact exact_range_def)
  then show "generateBasicCSV h a ts =
          header_basic @
          concat (map (\<lambda>(bal, t). basic_row h a bal t)
                    (zip (running_balances (openingBalance (getCurrentSettings a)) ts) ts))"
    by (simp add: generateBasicCSV_lines basic_lines_def)
qed

text \<open>
  The invariant at opening balance 5000 with an income of 3000 followed by an expense of
  2000: the balance runs 8000, 6000, the totals are 3000 and 2000, and the basic CSV text
  is the header and the two rows written with 8000 and 6000.
\<close>

theorem balance_accumulator_invariant_witness:
  "snd (render_rows \<lparr>balance = or_zero 5000, totalIncome = 0, totalExpense = 0\<rparr> scenario_B) =
     \<lparr>balance = 6000, totalIncome = 3000, totalExpense = 2000\<rparr>
   \<and> map row_balance
       (fst (render_rows \<lparr>balance = or_zero 5000, totalIncome = 0, totalExpense = 0\<rparr> scenario_B))
     = [8000, 6000]
   \<and> shown_totals (renderTransactions example_host (example_app 5000 scenario_B) no_filter) =
       \<lparr>total_income = 3000, total_expense = 2000, final_balance = 6000\<rparr>
   \<and> map row_balance (tbody (renderTransactions example_host (example_app 5000 scenario_B)
       no_filter)) = [8000, 6000]
   \<and> generateBasicCSV example_host (example_app 5000 scenario_B) scenario_B =
       header_basic @
       basic_row example_host (example_app 5000 scenario_B) 8000
         (example_tx ''2024-01-05'' ''income'' ''Sale'' ''Taxi Co.'' 3000) @
       basic_row example_host (example_app 5000 scenario_B) 6000
         (example_tx ''2024-01-06'' ''expense'' ''Taxi fare to airport'' [] 2000)"
proof -
  let ?a = "example_app 5000 scenario_B"
  let ?t1 = "example_tx ''2024-01-05'' ''income'' ''Sale'' ''Taxi Co.'' 3000"
  let ?t2 = "example_tx ''2024-01-06'' ''expense'' ''Taxi fare to airport'' [] 2000"
  note inv = balance_accumulator_invariant [of 5000 scenario_B 0 example_host no_filter ?a]
  have fl: "filterTransactions example_host no_filter (getCurrentTransactions ?a) = scenario_B"
    by (simp add: example_no_filter example_app_transactions)
  have ne: "scenario_B \<noteq> []"
    by (simp add: scenario_B_def)
  have z: "zip [8000, 6000] scenario_B = [(8000, ?t1), (6000, ?t2)]"
    by (simp add: scenario_B_def)
  have p2: "filterTransactions example_host no_filter (getCurrentTransactions ?a) \<noteq> [] \<and>
      exact_range (openingBalance (getCurrentSettings ?a))
        (filterTransactions example_host no_filter (getCurrentTransactions ?a))"
    by (simp only: fl example_app_opening) (simp add: ne scenario_B_range)
  have p3: "(\<forall>t\<in>set scenario_B. type t = ''income'' \<or> type t = ''expense'') \<and>
      exact_range (openingBalance (getCurrentSettings ?a)) scenario_B"
    by (simp only: example_app_opening) (simp add: scenario_B_types scenario_B_range)
  have l: "snd (render_rows \<lparr>balance = or_zero 5000, totalIncome = 0, totalExpense = 0\<rparr>
        scenario_B) = \<lparr>balance = 6000, totalIncome = 3000, totalExpense = 2000\<rparr>
      \<and> map row_balance (fst (render_rows
        \<lparr>balance = or_zero 5000, totalIncome = 0, totalExpense = 0\<rparr> scenario_B)) = [8000, 6000]"
    using inv [THEN conjunct1, THEN mp, OF scenario_B_range]
    by (simp add: scenario_B_sums scenario_B_balances)
  have r: "shown_totals (renderTransactions example_host ?a no_filter) =
       \<lparr>total_income = 3000, total_expense = 2000, final_balance = 6000\<rparr>
      \<and> map row_balance (tbody (renderTransactions example_host ?a no_filter)) = [8000, 6000]"
    using inv [THEN conjunct2, THEN conjunct1, THEN mp, OF p2]
    by (simp only: fl example_app_opening scenario_B_sums scenario_B_balances) simp
  have c: "generateBasicCSV example_host ?a scenario_B =
       header_basic @ basic_row example_host ?a 8000 ?t1 @ basic_row example_host ?a 6000 ?t2"
    using inv [THEN conjunct2, THEN conjunct2, THEN mp, OF p3]
    by (simp only: example_app_opening scenario_B_balances z) simp
  show ?thesis
    using l r c by blast
qed

lemma bit_length_above: "bit_length 9007199254740993 = 54"
  by (simp add: bit_length.simps)

lemma double_round_above: "double_round 9007199254740993 = 9007199254740992"
  by (simp add: double_round_def bit_length_above Let_def)

lemma income_of_one_at_limit:
  "render_step \<lparr>balance = 9007199254740992, totalIncome = n, totalExpense = 0\<rparr>
     (example_tx d ''income'' descr cl 1) =
   \<lparr>balance = 9007199254740992, totalIncome = js_add n 1, totalExpense = 0\<rparr>"
proof -
  have "js_sub 1 0 = 1"
    by (simp add: js_sub_def double_round_def)
  moreover have "js_add 9007199254740992 1 = 9007199254740992"
    by (simp add: js_add_def double_round_above)
  moreover have "js_add 0 0 = 0"
    by (simp add: js_add_def double_round_def)
  ultimately show ?thesis
    by (simp add: render_step_def example_tx_def)
qed

lemma basic_income_of_one_at_limit:
  "basic_balance 9007199254740992 (example_tx d ''income'' descr cl 1) = 9007199254740992"
  by (simp add: basic_balance_def example_tx_def js_add_def double_round_above)

text \<open>
  The claim as stated fails beyond the exact range of the doubles: in a book that opens at
  9007199254740992, which is 2 to the power 53, two incomes of 1 leave the balance where it
  was, although the totals show an income of 2; the loop of \<open>generateBasicCSV\<close> writes the
  same two balances.
\<close>

theorem balance_beyond_exact_range_counterexample:
  "shown_totals (renderTransactions example_host
      (example_app 9007199254740992
         [example_tx ''2024-01-05'' ''income'' ''Sale'' [] 1,
          example_tx ''2024-01-06'' ''income'' ''Sale'' [] 1]) no_filter) =
     \<lparr>total_income = 2, total_expense = 0, final_balance = 9007199254740992\<rparr>
   \<and> basic_balances 9007199254740992
       [example_tx ''2024-01-05'' ''income'' ''Sale'' [] 1,
        example_tx ''2024-01-06'' ''income'' ''Sale'' [] 1] =
     [9007199254740992, 9007199254740992]
   \<and> 9007199254740992
       + sum_income [example_tx ''2024-01-05'' ''income'' ''Sale'' [] 1,
                     example_tx ''2024-01-06'' ''income'' ''Sale'' [] 1]
       - sum_expense [example_tx ''2024-01-05'' ''income'' ''Sale'' [] 1,
                      example_tx ''2024-01-06'' ''income'' ''Sale'' [] 1] =
     (9007199254740994 :: int)"
proof (intro conjI)
  let ?ts = "[example_tx ''2024-01-05'' ''income'' ''Sale'' [] 1,
              example_tx ''2024-01-06'' ''income'' ''Sale'' [] 1]"
  let ?a = "example_app 9007199254740992 ?ts"
  have fl: "filterTransactions example_host no_filter (getCurrentTransactions ?a) = ?ts"
    by (simp add: example_no_filter example_app_transactions)
  have fin: "balance (snd (render_rows
      \<lparr>balance = 9007199254740992, totalIncome = 0, totalExpense = 0\<rparr> ?ts)) = 9007199254740992"
    by (simp add: income_of_one_at_limit Let_def split: prod.splits)
  have mg: "magnitude ?ts \<le> 2 ^ 53"
    by (simp add: magnitude_def example_tx_def)
  have sums: "sum_income ?ts = 2" "sum_expense ?ts = 0"
    by (simp_all add: sum_income_def sum_expense_def example_tx_def)
  have "shown_totals (renderTransactions example_host ?a no_filter) =
      updateTotals ?ts (balance (snd (render_rows
        \<lparr>balance = 9007199254740992, totalIncome = 0, totalExpense = 0\<rparr> ?ts)))"
    unfolding renderTransactions_def fl Let_def
    by (simp add: example_app_opening or_zero_id split: prod.splits)
  then show "shown_totals (renderTransactions example_host ?a no_filter) =
     \<lparr>total_income = 2, total_expense = 0, final_balance = 9007199254740992\<rparr>"
    by (simp only: fin updateTotals_sums [OF mg] sums)
  show "basic_balances 9007199254740992 ?ts = [9007199254740992, 9007199254740992]"
    by (simp add: basic_income_of_one_at_limit)
  show "9007199254740992 + sum_income ?ts - sum_expense ?ts = (9007199254740994 :: int)"
    by (simp add: sums)
qed

text \<open>
  Claim C2. When the filtered list is empty, \<open>renderTransactions\<close> calls
  \<open>updateTotals([], 0)\<close>: both totals are zero, and the final balance shown is zero, not
  the opening balance. Here the book opens at 5000, holds the two transactions of the
  previous example, and the keyword \<open>zzz\<close> matches neither of them.
\<close>

theorem empty_result_shows_zero_balance:
  "openingBalance (getCurrentSettings (example_app 5000 scenario_B)) = 5000
   \<and> filterTransactions example_host (keyword_only ''zzz'')
        (getCurrentTransactions (example_app 5000 scenario_B)) = []
   \<and> shown_totals (renderTransactions example_host (example_app 5000 scenario_B)
        (keyword_only ''zzz'')) =
       \<lparr>total_income = 0, total_expense = 0, final_balance = 0\<rparr>"
proof -
  have e: "filterTransactions example_host (keyword_only ''zzz'')
        (getCurrentTransactions (example_app 5000 scenario_B)) = []"
    by (simp add: filter_keyword_only example_trim_lower example_app_transactions
          scenario_B_def example_tx_def)
       (simp add: example_host_def ascii_lower_def)
  show ?thesis
    by (simp add: example_app_opening e renderTransactions_def updateTotals_def)
qed

text \<open>In that example the final balance shown differs from the opening balance.\<close>

theorem empty_result_shows_zero_balance_witness:
  "final_balance (shown_totals (renderTransactions example_host (example_app 5000 scenario_B)
        (keyword_only ''zzz'')))
   \<noteq> openingBalance (getCurrentSettings (example_app 5000 scenario_B))"
  using empty_result_shows_zero_balance by simp

subsection \<open>Filter engine\<close>

lemma filter_engine_conj: "filterTransactions h f ts = filter (matches h f) ts"
  unfolding filterTransactions_def Let_def matches_def keyword_of_def amount_in_range_def
  by (auto intro!: filter_cong simp: conj_commute)

lemma example_keyword: "keyword_of example_host taxi_filter = ''taxi''"
  by (simp add: keyword_of_def taxi_filter_def example_host_def ascii_trim_def is_space_def
        ascii_lower_def)

lemma example_no_options: "no_options example_host no_filter"
  by (simp add: no_options_def keyword_of_def no_filter_def example_host_def ascii_trim_def)

lemma ledger_C_matches:
  "map (matches example_host taxi_filter) ledger_C =
     [False, True, True, False, False, False, False]"
  unfolding ledger_C_def list.map matches_def example_keyword amount_in_range_def
  by (simp add: taxi_filter_def example_tx_def example_host_def ascii_lower_def
        decimal_number_def digit_value_def)

text \<open>
  Claim C3, as amended. For every transaction list and every setting of the filter
  controls, the filter engine returns, in their original order, exactly the transactions
  that satisfy the conjunction of the conditions of the controls that are set: date on or
  after the start date, date on or before the end date, the lower-cased and trimmed keyword
  contained in the lower-cased description or counterparty, amount between the parsed
  bounds (0 and infinity where one bound is left out), account subject equal to the chosen
  one. A control left empty, or a keyword that is empty once trimmed, adds no condition;
  with none set the result is the input list.
\<close>

theorem filter_engine_conjunction:
  "filterTransactions h f ts = filter (matches h f) ts
   \<and> (no_options h f \<longrightarrow> filterTransactions h f ts = ts)"
proof (intro conjI impI)
  show "filterTransactions h f ts = filter (matches h f) ts"
    by (rule filter_engine_conj)
next
  assume "no_options h f"
  then have "matches h f t" for t
    by (simp add: no_options_def matches_def)
  then show "filterTransactions h f ts = ts"
    by (simp add: filter_engine_conj)
qed

text \<open>
  The filter \<open>taxi_filter\<close> (5 to 6 January 2024, keyword \<open>taxi\<close> followed by a space,
  amounts 1000 to 5000) keeps of \<open>ledger_C\<close> the transaction of 5000 on the first day and
  the one whose counterparty is Taxi Co., and drops those dated one day outside, those of
  999 and 5001, and the one without the keyword; the empty filter keeps the whole ledger.
\<close>

theorem filter_engine_conjunction_witness:
  "map description (filterTransactions example_host taxi_filter ledger_C) =
     [''Taxi fare to airport'', ''Consulting'']
   \<and> no_options example_host no_filter
   \<and> filterTransactions example_host no_filter ledger_C = ledger_C"
proof -
  have "map description (filter (matches example_host taxi_filter) ledger_C) =
     [''Taxi fare to airport'', ''Consulting'']"
    using ledger_C_matches by (simp add: ledger_C_def example_tx_def)
  moreover have "filterTransactions example_host taxi_filter ledger_C =
      filter (matches example_host taxi_filter) ledger_C"
    using filter_engine_conjunction [of example_host taxi_filter ledger_C] by (rule conjunct1)
  moreover have "filterTransactions example_host no_filter ledger_C = ledger_C"
    using filter_engine_conjunction [of example_host no_filter ledger_C] example_no_options
    by blast
  ultimately show ?thesis
    using example_no_options by simp
qed

text \<open>
  The claim as stated fails where trimming changes the keyword: for the keyword \<open>taxi\<close>
  followed by a space, the engine returns a transaction whose description is \<open>taxi\<close> and
  whose counterparty is empty, although neither contains the keyword that was entered.
\<close>

theorem filter_keyword_trimmed_counterexample:
  "map description (filterTransactions example_host (keyword_only ''taxi '')
      [example_tx ''2024-01-06'' ''expense'' ''taxi'' [] 1200]) = [''taxi'']
   \<and> filter (spec_matches example_host (keyword_only ''taxi ''))
      [example_tx ''2024-01-06'' ''expense'' ''taxi'' [] 1200] = []"
  by (simp add: filter_engine_conj matches_def spec_matches_def keyword_of_def keyword_only_def
        example_host_def ascii_trim_def is_space_def ascii_lower_def example_tx_def)

subsection \<open>Tax label tables\<close>

lemma lookup_or_miss:
  "map_of table key = None \<Longrightarrow> key \<notin> set object_prototype_names \<Longrightarrow>
   lookup_or h table key dflt = dflt"
  by (simp add: lookup_or_def)

lemma lookup_or_inherited:
  "map_of table key = None \<Longrightarrow> key \<in> set object_prototype_names \<Longrightarrow>
   lookup_or h table key dflt = inherited_text h key"
  by (simp add: lookup_or_def)

lemma mf_codes_miss: "tc \<notin> set tax_keys \<Longrightarrow> map_of mf_codes tc = None"
  by (simp add: tax_keys_def mf_codes_def)

lemma freee_codes_miss: "tc \<notin> set tax_keys \<Longrightarrow> map_of freee_codes tc = None"
  by (simp add: tax_keys_def freee_codes_def)

lemma yayoi_codes_miss: "tc \<notin> set tax_keys \<Longrightarrow> map_of yayoi_codes tc = None"
  by (simp add: tax_keys_def yayoi_codes_def)

lemma inherited_names_no_keys: "tc \<in> set object_prototype_names \<Longrightarrow> tc \<notin> set tax_keys"
  by (auto simp: object_prototype_names_def tax_keys_def)

lemma unset_code_not_inherited: "[] \<notin> set object_prototype_names" "[] \<notin> set tax_keys"
  by (simp_all add: object_prototype_names_def tax_keys_def)

lemma mf_values:
  "map (getMFTaxCode h) tax_keys =
     [mf_taxable_10, mf_taxable_8, mf_non_taxable, mf_tax_exempt, mf_out_of_scope]"
  by (simp add: tax_keys_def getMFTaxCode_def lookup_or_def mf_codes_def mf_taxable_10_def
        mf_taxable_8_def mf_non_taxable_def mf_tax_exempt_def mf_out_of_scope_def)

lemma freee_values:
  "map (getFreeeTaxCode h) tax_keys =
     [mf_taxable_10, freee_taxable_8, mf_non_taxable, mf_tax_exempt, mf_out_of_scope]"
  by (simp add: tax_keys_def getFreeeTaxCode_def lookup_or_def freee_codes_def mf_taxable_10_def
        freee_taxable_8_def mf_non_taxable_def mf_tax_exempt_def mf_out_of_scope_def)

lemma yayoi_values:
  "map (getYayoiTaxCode h) tax_keys =
     [yayoi_taxable_10, yayoi_taxable_8, yayoi_non_taxable, yayoi_tax_exempt, mf_out_of_scope]"
  by (simp add: tax_keys_def getYayoiTaxCode_def lookup_or_def yayoi_codes_def
        yayoi_taxable_10_def yayoi_taxable_8_def yayoi_non_taxable_def yayoi_tax_exempt_def
        mf_out_of_scope_def)

lemma basic_unset: "basicTaxType h [] = []"
  by (simp add: basicTaxType_def lookup_or_def taxLabels_def object_prototype_names_def)

text \<open>
  Claim C4, as amended. The tables of the dialects mf, freee and yayoi have exactly the
  five keys \<open>taxable-10\<close>, \<open>taxable-8\<close>, \<open>non-taxable\<close>, \<open>tax-exempt\<close>, \<open>out-of-scope\<close>, which
  are also the keys of the on-screen table of \<open>getTaxLabel\<close>, and map them to the display
  strings of the dialect. The unset (empty) tax code, and every other
  code that is neither one of the five keys nor the name of a member every object
  inherits, gets the label of \<open>taxable-10\<close> of the dialect; the name of an inherited member
  gets the text of that member. The basic dialect gives the unset tax code an empty label.
\<close>

theorem dialect_tax_tables:
  "map fst mf_codes = tax_keys \<and> map fst freee_codes = tax_keys \<and> map fst yayoi_codes = tax_keys
   \<and> map fst labels = tax_keys
   \<and> map (getMFTaxCode h) tax_keys =
        [mf_taxable_10, mf_taxable_8, mf_non_taxable, mf_tax_exempt, mf_out_of_scope]
   \<and> map (getFreeeTaxCode h) tax_keys =
        [mf_taxable_10, freee_taxable_8, mf_non_taxable, mf_tax_exempt, mf_out_of_scope]
   \<and> map (getYayoiTaxCode h) tax_keys =
        [yayoi_taxable_10, yayoi_taxable_8, yayoi_non_taxable, yayoi_tax_exempt, mf_out_of_scope]
   \<and> getMFTaxCode h [] = mf_taxable_10
   \<and> getFreeeTaxCode h [] = mf_taxable_10
   \<and> getYayoiTaxCode h [] = yayoi_taxable_10
   \<and> (tc \<notin> set tax_keys \<and> tc \<notin> set object_prototype_names \<longrightarrow>
        getMFTaxCode h tc = mf_taxable_10 \<and>
        getFreeeTaxCode h tc = mf_taxable_10 \<and>
        getYayoiTaxCode h tc = yayoi_taxable_10)
   \<and> (tc \<in> set object_prototype_names \<longrightarrow>
        getMFTaxCode h tc = inherited_text h tc \<and>
        getFreeeTaxCode h tc = inherited_text h tc \<and>
        getYayoiTaxCode h tc = inherited_text h tc)
   \<and> basicTaxType h [] = []"
proof (intro conjI impI)
  show "map fst mf_codes = tax_keys" by (simp add: mf_codes_def tax_keys_def)
  show "map fst freee_codes = tax_keys" by (simp add: freee_codes_def tax_keys_def)
  show "map fst yayoi_codes = tax_keys" by (simp add: yayoi_codes_def tax_keys_def)
  show "map fst labels = tax_keys" by (simp add: labels_def tax_keys_def)
  show "map (getMFTaxCode h) tax_keys =
        [mf_taxable_10, mf_taxable_8, mf_non_taxable, mf_tax_exempt, mf_out_of_scope]"
    by (rule mf_values)
  show "map (getFreeeTaxCode h) tax_keys =
        [mf_taxable_10, freee_taxable_8, mf_non_taxable, mf_tax_exempt, mf_out_of_scope]"
    by (rule freee_values)
  show "map (getYayoiTaxCode h) tax_keys =
        [yayoi_taxable_10, yayoi_taxable_8, yayoi_non_taxable, yayoi_tax_exempt, mf_out_of_scope]"
    by (rule yayoi_values)
  show "getMFTaxCode h [] = mf_taxable_10"
    by (simp add: getMFTaxCode_def lookup_or_miss mf_codes_miss unset_code_not_inherited)
  show "getFreeeTaxCode h [] = mf_taxable_10"
    by (simp add: getFreeeTaxCode_def lookup_or_miss freee_codes_miss unset_code_not_inherited)
  show "getYayoiTaxCode h [] = yayoi_taxable_10"
    by (simp add: getYayoiTaxCode_def lookup_or_miss yayoi_codes_miss unset_code_not_inherited)
  show "basicTaxType h [] = []"
    by (rule basic_unset)
next
  assume m: "tc \<notin> set tax_keys \<and> tc \<notin> set object_prototype_names"
  show "getMFTaxCode h tc = mf_taxable_10"
    using m by (simp add: getMFTaxCode_def lookup_or_miss mf_codes_miss)
  show "getFreeeTaxCode h tc = mf_taxable_10"
    using m by (simp add: getFreeeTaxCode_def lookup_or_miss freee_codes_miss)
  show "getYayoiTaxCode h tc = yayoi_taxable_10"
    using m by (simp add: getYayoiTaxCode_def lookup_or_miss yayoi_codes_miss)
next
  assume i: "tc \<in> set object_prototype_names"
  then have k: "tc \<notin> set tax_keys"
    by (rule inherited_names_no_keys)
  show "getMFTaxCode h tc = inherited_text h tc"
    using i k by (simp add: getMFTaxCode_def lookup_or_inherited mf_codes_miss)
  show "getFreeeTaxCode h tc = inherited_text h tc"
    using i k by (simp add: getFreeeTaxCode_def lookup_or_inherited freee_codes_miss)
  show "getYayoiTaxCode h tc = inherited_text h tc"
    using i k by (simp add: getYayoiTaxCode_def lookup_or_inherited yayoi_codes_miss)
qed

lemma example_inherited:
  "inherited_text example_host ''toString'' = ''function toString() { [native code] }''"
  by (simp add: example_host_def native_text_def)

text \<open>
  An unknown code and a code of the basic table get the 10 percent label of mf and of
  yayoi; the code \<open>toString\<close> gets the text of the inherited function.
\<close>

theorem dialect_tax_tables_witness:
  "getMFTaxCode example_host ''unknown'' = mf_taxable_10
   \<and> getYayoiTaxCode example_host ''tax10'' = yayoi_taxable_10
   \<and> getFreeeTaxCode example_host ''toString'' = ''function toString() { [native code] }''"
proof -
  have a: "''unknown'' \<notin> set tax_keys \<and> ''unknown'' \<notin> set object_prototype_names"
    "''tax10'' \<notin> set tax_keys \<and> ''tax10'' \<notin> set object_prototype_names"
    by (simp_all add: tax_keys_def object_prototype_names_def)
  have b: "''toString'' \<in> set object_prototype_names"
    by (simp add: object_prototype_names_def)
  show ?thesis
    using dialect_tax_tables [of example_host "''unknown''"]
          dialect_tax_tables [of example_host "''tax10''"]
          dialect_tax_tables [of example_host "''toString''"] a b
    by (simp add: example_inherited)
qed

text \<open>
  The claim as stated fails in two ways. The basic dialect labels the unset tax code with
  the empty string, its \<open>|| ''\<close>, and not with its 10 percent label. And a code that no
  table holds is not always unrecognized: for the code \<open>toString\<close> the table lookup of the
  mf dialect finds the inherited function, and the row gets the text of that function
  instead of the 10 percent label.
\<close>

theorem tax_default_counterexample:
  "basicTaxType example_host [] = []
   \<and> basic_tax10 \<noteq> []
   \<and> ''toString'' \<notin> set tax_keys
   \<and> getMFTaxCode example_host ''toString'' = ''function toString() { [native code] }''
   \<and> mf_taxable_10 \<noteq> ''function toString() { [native code] }''"
  by (simp add: basic_unset basic_tax10_def tax_keys_def getMFTaxCode_def lookup_or_def
        mf_codes_def object_prototype_names_def example_inherited mf_taxable_10_def)

subsection \<open>CSV rows\<close>

lemma digits_nonempty: "digits n \<noteq> []"
  by (subst digits.simps) simp

lemma decimal_text_nonempty: "decimal_text i \<noteq> []"
  by (simp add: decimal_text_def digits_nonempty)

lemma number_4000: "number_to_string h 4000 = ''4000''"
  by (simp add: number_to_string_def decimal_text_def digits.simps)

lemma number_3000: "number_to_string h 3000 = ''3000''"
  by (simp add: number_to_string_def decimal_text_def digits.simps)

lemma number_2000: "number_to_string h 2000 = ''2000''"
  by (simp add: number_to_string_def decimal_text_def digits.simps)

lemma number_8000: "number_to_string h 8000 = ''8000''"
  by (simp add: number_to_string_def decimal_text_def digits.simps)

lemma number_6000: "number_to_string h 6000 = ''6000''"
  by (simp add: number_to_string_def decimal_text_def digits.simps)

lemma export_payload_has_bom:
  "exportToCSV h a startMonth endMonth = Download csv \<Longrightarrow> take 3 csv = BOM"
  by (auto simp: exportToCSV_def csv_for_format_def BOM_def Let_def
           split: if_splits option.splits)

lemma basic_row_quotes_text:
  "\<exists>before after.
     basic_row h a bal t =
       before @ dquote @ replace_quotes (description t) @ dquote @ '','' @
       dquote @ replace_quotes (client t) @ dquote @ after"
proof -
  have "basic_row h a bal t =
      (date t @ '','' @ dquote @ (if type t = ''income'' then str_nyukin else str_shukkin) @
       dquote @ '','') @
      dquote @ replace_quotes (description t) @ dquote @ '','' @
      dquote @ replace_quotes (client t) @ dquote @
      ('','' @ dquote @ getAccountSubjectName h a (account_subject_id t) @ dquote @ '','' @
       dquote @ (if truthy (sub_account_id t)
                 then getSubAccountName h a (account_subject_id t) else []) @ dquote @ '','' @
       basic_income h t @ '','' @ basic_expense h t @ '','' @ number_to_string h bal @ '','' @
       dquote @ basicTaxType h (taxType t) @ dquote @ [CHR 0x0A])"
    by (simp add: basic_row_def Let_def)
  then show ?thesis by blast
qed

lemma mf_row_quotes_text:
  "\<exists>before after.
     mf_row h index t =
       before @ dquote @ replace_quotes (description t) @ dquote @ '','' @
       dquote @ replace_quotes (client t) @ dquote @ after"
proof (cases "type t = ''income''")
  case True
  then have "mf_row h index t =
      (number_to_string h (int index + 1) @ '','' @ date t @ '','' @ str_genkin @ '',,,,'' @
       number_to_string h (amount t) @ '',,'' @ str_uriagedaka @ '',,,,'' @
       number_to_string h (amount t) @ '',,'') @
      dquote @ replace_quotes (description t) @ dquote @ '','' @
      dquote @ replace_quotes (client t) @ dquote @ ('',,,,'' @ [CHR 0x0A])"
    by (simp add: mf_row_def Let_def)
  then show ?thesis by blast
next
  case False
  then have "mf_row h index t =
      (number_to_string h (int index + 1) @ '','' @ date t @ '','' @ str_keihi @ '',,,,'' @
       number_to_string h (amount t) @ '',,'' @ str_genkin @ '',,,,'' @
       number_to_string h (amount t) @ '',,'') @
      dquote @ replace_quotes (description t) @ dquote @ '','' @
      dquote @ replace_quotes (client t) @ dquote @ ('',,,,'' @ [CHR 0x0A])"
    by (simp add: mf_row_def Let_def)
  then show ?thesis by blast
qed

text \<open>
  Claim C5. The freee row of an expense of 4000 whose counterparty is
  \<open>Smith, "Bob"\<close>: the quotes of the counterparty are doubled, but the field is written
  without enclosing quotes, so its comma splits the column. The CSV text that
  \<open>sendMonthlyClosing\<close> produces for the same transaction is the mf header followed by
  the row, with no byte-order mark in front.
\<close>

theorem freee_client_unquoted_and_mail_without_bom:
  "freee_row example_host quoted_client_tx =
     str_shishutsu @ '',,2024-01-06,,Smith, '' @ [CHR 0x22, CHR 0x22] @ ''Bob'' @
     [CHR 0x22, CHR 0x22] @ '','' @ str_keihi @ '','' @ mf_taxable_10 @ '',4000,,'' @
     dquote @ ''Dinner'' @ dquote @ '',,,,,,'' @ [CHR 0x0A]
   \<and> sendMonthlyClosing_csvContent example_host (example_app 0 [quoted_client_tx])
        [quoted_client_tx] = Some (header_mf @ mf_row example_host 0 quoted_client_tx)
   \<and> take 3 (header_mf @ mf_row example_host 0 quoted_client_tx) \<noteq> BOM"
proof (intro conjI)
  show "freee_row example_host quoted_client_tx =
     str_shishutsu @ '',,2024-01-06,,Smith, '' @ [CHR 0x22, CHR 0x22] @ ''Bob'' @
     [CHR 0x22, CHR 0x22] @ '','' @ str_keihi @ '','' @ mf_taxable_10 @ '',4000,,'' @
     dquote @ ''Dinner'' @ dquote @ '',,,,,,'' @ [CHR 0x0A]"
    by (simp add: freee_row_def quoted_client_tx_def example_tx_def replace_quotes_def dquote_def
          number_4000 getFreeeTaxCode_def lookup_or_def freee_codes_def
          object_prototype_names_def)
  show "sendMonthlyClosing_csvContent example_host (example_app 0 [quoted_client_tx])
        [quoted_client_tx] = Some (header_mf @ mf_row example_host 0 quoted_client_tx)"
    by (simp add: sendMonthlyClosing_csvContent_def getCurrentBook_def example_app_def
          or_default_def generateMFCloudCSV_def)
  show "take 3 (header_mf @ mf_row example_host 0 quoted_client_tx) \<noteq> BOM"
    by (simp add: header_mf_def BOM_def)
qed

text \<open>The mailed CSV text of that example does not begin with the byte-order mark.\<close>

theorem freee_client_unquoted_and_mail_without_bom_witness:
  "\<exists>csv. sendMonthlyClosing_csvContent example_host (example_app 0 [quoted_client_tx])
            [quoted_client_tx] = Some csv
         \<and> take 3 csv \<noteq> BOM"
  using freee_client_unquoted_and_mail_without_bom by blast


lemma subject_name_unchanged:
  "getAccountSubjectName example_host quoted_subject_app (Some 1) =
     ''A'' @ dquote @ '','' @ dquote @ ''B''"
  by (simp add: getAccountSubjectName_def quoted_subject_app_def example_host_def html_text_def
        dquote_def)

lemma subject_income_row:
  "basic_row example_host quoted_subject_app 8000 subject_income =
     ''2024-01-05,'' @ dquote @ str_nyukin @ dquote @ '','' @ dquote @ ''Sale'' @ dquote @ '','' @
     dquote @ ''Taxi Co.'' @ dquote @ '','' @
     dquote @ ''A'' @ dquote @ '','' @ dquote @ ''B'' @ dquote @ '','' @
     dquote @ dquote @ '',3000,,8000,'' @ dquote @ dquote @ [CHR 0x0A]"
  by (simp add: basic_row_def Let_def subject_income_def subject_name_unchanged basic_income_def
        basic_expense_def number_3000 number_8000 replace_quotes_def basic_unset)

lemma subject_income_csv:
  "generateBasicCSV example_host quoted_subject_app [subject_income] =
     header_basic @ basic_row example_host quoted_subject_app 8000 subject_income"
proof -
  have "openingBalance (getCurrentSettings quoted_subject_app) = 5000"
    by (simp add: getCurrentSettings_def getCurrentBook_def quoted_subject_app_def)
  moreover have "basic_balance 5000 subject_income = 8000"
    by (simp add: basic_balance_def subject_income_def js_add_def double_round_def)
  ultimately show ?thesis
    by (simp add: generateBasicCSV_lines basic_lines_def or_zero_id)
qed

lemma header_basic_records:
  "csv_scan FieldStart [] [] (header_basic @ rest) =
     [[CHR 0xE5, CHR 0x8F, CHR 0x96, CHR 0xE5, CHR 0xBC, CHR 0x95, CHR 0xE6, CHR 0x97, CHR 0xA5],
      [CHR 0xE5, CHR 0x8C, CHR 0xBA, CHR 0xE5, CHR 0x88, CHR 0x86],
      [CHR 0xE5, CHR 0x8F, CHR 0x96, CHR 0xE5, CHR 0xBC, CHR 0x95, CHR 0xE5, CHR 0x86, CHR 0x85,
       CHR 0xE5, CHR 0xAE, CHR 0xB9],
      [CHR 0xE5, CHR 0x8F, CHR 0x96, CHR 0xE5, CHR 0xBC, CHR 0x95, CHR 0xE5, CHR 0x85, CHR 0x88],
      [CHR 0xE5, CHR 0x8B, CHR 0x98, CHR 0xE5, CHR 0xAE, CHR 0x9A, CHR 0xE7, CHR 0xA7, CHR 0x91,
       CHR 0xE7, CHR 0x9B, CHR 0xAE],
      [CHR 0xE8, CHR 0xA3, CHR 0x9C, CHR 0xE5, CHR 0x8A, CHR 0xA9, CHR 0xE7, CHR 0xA7, CHR 0x91,
       CHR 0xE7, CHR 0x9B, CHR 0xAE],
      str_nyukin, str_shukkin,
      [CHR 0xE6, CHR 0xAE, CHR 0x8B, CHR 0xE9, CHR 0xAB, CHR 0x98],
      [CHR 0xE6, CHR 0xB6, CHR 0x88, CHR 0xE8, CHR 0xB2, CHR 0xBB, CHR 0xE7, CHR 0xA8, CHR 0x8E,
       CHR 0xE5, CHR 0x8C, CHR 0xBA, CHR 0xE5, CHR 0x88, CHR 0x86]]
     # csv_scan FieldStart [] [] rest"
  by (simp add: header_basic_def str_nyukin_def str_shukkin_def)

lemma subject_income_records:
  "csv_scan FieldStart [] [] (basic_row example_host quoted_subject_app 8000 subject_income) =
     [[''2024-01-05'', str_nyukin, ''Sale'', ''Taxi Co.'', ''A'', ''B'', [], ''3000'', [],
       ''8000'', []]]"
  by (simp add: subject_income_row dquote_def str_nyukin_def)

text \<open>
  Claim C6. The basic CSV text of a single income of 3000 booked on the account subject
  named \<open>A","B\<close>, read as CSV: the header has ten columns, the seventh headed by the word
  for money in and the eighth by the word for money out; the record of the transaction
  has eleven fields, its seventh is blank and its eighth holds the amount. The name of the
  subject is written between quotes without its own quotes being doubled, so it ends the
  field early and every later column moves one place to the right.
\<close>

theorem basic_row_subject_quote_shifts_columns:
  "type subject_income = ''income''
   \<and> map length (csv_records
        (generateBasicCSV example_host quoted_subject_app [subject_income])) = [10, 11]
   \<and> map (\<lambda>record. record ! 6) (csv_records
        (generateBasicCSV example_host quoted_subject_app [subject_income])) = [str_nyukin, []]
   \<and> map (\<lambda>record. record ! 7) (csv_records
        (generateBasicCSV example_host quoted_subject_app [subject_income])) =
       [str_shukkin, ''3000'']"
proof (intro conjI)
  show "type subject_income = ''income''"
    by (simp add: subject_income_def)
  show "map length (csv_records
        (generateBasicCSV example_host quoted_subject_app [subject_income])) = [10, 11]"
    by (simp add: csv_records_def subject_income_csv header_basic_records
          subject_income_records)
  show "map (\<lambda>record. record ! 6) (csv_records
        (generateBasicCSV example_host quoted_subject_app [subject_income])) = [str_nyukin, []]"
    by (simp add: csv_records_def subject_income_csv header_basic_records
          subject_income_records)
  show "map (\<lambda>record. record ! 7) (csv_records
        (generateBasicCSV example_host quoted_subject_app [subject_income])) =
       [str_shukkin, ''3000'']"
    by (simp add: csv_records_def subject_income_csv header_basic_records
          subject_income_records)
qed

text \<open>
  In that text the amount of the income stands in the column of the expenses, and the
  column of the incomes is blank.
\<close>

theorem basic_row_subject_quote_shifts_columns_witness:
  "csv_records (generateBasicCSV example_host quoted_subject_app [subject_income]) ! 1 ! 7 =
     ''3000''
   \<and> csv_records (generateBasicCSV example_host quoted_subject_app [subject_income]) ! 1 ! 6 = []
   \<and> csv_records (generateBasicCSV example_host quoted_subject_app [subject_income]) ! 0 ! 7 =
     str_shukkin"
proof -
  have "length (csv_records
      (generateBasicCSV example_host quoted_subject_app [subject_income])) = 2"
    using basic_row_subject_quote_shifts_columns [THEN conjunct2, THEN conjunct1]
    by (metis length_map length_Cons list.size(3) One_nat_def Suc_1)
  then obtain r0 r1 where r: "csv_records
      (generateBasicCSV example_host quoted_subject_app [subject_income]) = [r0, r1]"
    by (metis (no_types, opaque_lifting) One_nat_def Suc_1 length_0_conv length_Suc_conv)
  show ?thesis
    using basic_row_subject_quote_shifts_columns
    by (simp add: r)
qed

subsection \<open>Export\<close>

lemma no_book_no_transactions:
  "getCurrentBook a = None \<Longrightarrow> getCurrentTransactions a = []"
  by (simp add: getCurrentTransactions_def)

lemma period_filter_no_book:
  "getCurrentBook a = None \<Longrightarrow> period_filter s e (getCurrentTransactions a) = []"
  by (simp add: no_book_no_transactions period_filter_def)

lemma loadTransactions_keeps_subscription:
  "subscription_plan (loadTransactionsFromAPI h srv bookId a) = subscription_plan a"
  by (simp add: loadTransactionsFromAPI_def split: option.splits)

lemma switchToBook_keeps_subscription:
  "subscription_plan (switchToBook h srv bookId a) = subscription_plan a"
  by (simp add: switchToBook_def loadTransactions_keeps_subscription
        loadAccountSubjectsFromAPI_def)

lemma loadSubscription_loads:
  "subscription_plan (loadSubscriptionFromAPI srv a) \<noteq> None"
  by (simp add: loadSubscriptionFromAPI_def split: option.splits)

lemma init_loads_subscription:
  "isAuthenticated srv \<Longrightarrow> subscription_plan (init h srv a) \<noteq> None"
  using loadSubscription_loads [of srv "loadBooksFromAPI srv a"]
  by (simp add: init_def Let_def switchToBook_keeps_subscription split: option.splits)

lemma init_without_token: "\<not> isAuthenticated srv \<Longrightarrow> init h srv a = a"
  by (simp add: init_def)

lemma new_app_no_transactions: "getCurrentTransactions new_CashBookApp = []"
  by (simp add: getCurrentTransactions_def getCurrentBook_def new_CashBookApp_def)

lemma assign_first_empty: "assign_first P f xs = [] \<longleftrightarrow> xs = []"
  by (cases xs) simp_all

lemma loadTransactions_keeps_no_books:
  "books (loadTransactionsFromAPI h srv bookId a) = [] \<longleftrightarrow> books a = []"
  by (simp add: loadTransactionsFromAPI_def assign_first_empty split: option.splits)

lemma switchToBook_keeps_no_books:
  "books (switchToBook h srv bookId a) = [] \<longleftrightarrow> books a = []"
  by (simp add: switchToBook_def loadTransactions_keeps_no_books loadAccountSubjectsFromAPI_def)

lemma clearAllData_keeps:
  "subscription_plan (clearAllData a) = subscription_plan a"
  "books (clearAllData a) = [] \<longleftrightarrow> books a = []"
  by (simp_all add: clearAllData_def assign_first_empty split: option.splits)

lemma loadAccountSubjects_keeps:
  "subscription_plan (loadAccountSubjectsFromAPI srv bookId a) = subscription_plan a"
  "books (loadAccountSubjectsFromAPI srv bookId a) = books a"
  by (simp_all add: loadAccountSubjectsFromAPI_def)

lemma perform_keeps_invariant:
  assumes "subscription_plan a = None \<longrightarrow> books a = []"
  shows "subscription_plan (perform h a c) = None \<longrightarrow> books (perform h a c) = []"
proof (cases c)
  case (Init srv)
  show ?thesis
  proof (cases "isAuthenticated srv")
    case True
    then have "subscription_plan (init h srv a) \<noteq> None"
      by (rule init_loads_subscription)
    then show ?thesis
      using Init by auto
  next
    case False
    then show ?thesis
      using Init assms by (simp add: init_without_token)
  qed
next
  case (SwitchToBook srv bookId)
  then show ?thesis
    using assms by (simp add: switchToBook_keeps_subscription switchToBook_keeps_no_books)
next
  case (LoadTransactionsFromAPI srv bookId)
  then show ?thesis
    using assms
    by (simp add: loadTransactions_keeps_subscription loadTransactions_keeps_no_books)
next
  case (LoadAccountSubjectsFromAPI srv bookId)
  then show ?thesis
    using assms by (simp add: loadAccountSubjects_keeps)
next
  case ClearAllData
  then show ?thesis
    using assms by (simp add: clearAllData_keeps)
qed

lemma calls_keep_invariant:
  "subscription_plan a = None \<longrightarrow> books a = [] \<Longrightarrow>
   subscription_plan (foldl (perform h) a calls) = None \<longrightarrow>
   books (foldl (perform h) a calls) = []"
proof (induction calls arbitrary: a)
  case Nil
  then show ?case by simp
next
  case (Cons c calls)
  have "subscription_plan (perform h a c) = None \<longrightarrow> books (perform h a c) = []"
    using Cons.prems by (rule perform_keeps_invariant)
  then show ?case
    using Cons.IH [of "perform h a c"] by simp
qed

lemma no_books_no_transactions: "books a = [] \<Longrightarrow> getCurrentTransactions a = []"
  by (simp add: getCurrentTransactions_def getCurrentBook_def)

lemma transactions_in_session:
  "getCurrentTransactions (session h calls) \<noteq> [] \<Longrightarrow>
   subscription_plan (session h calls) \<noteq> None"
proof -
  assume t: "getCurrentTransactions (session h calls) \<noteq> []"
  have "subscription_plan new_CashBookApp = None \<longrightarrow> books new_CashBookApp = []"
    by (simp add: new_CashBookApp_def)
  then have "subscription_plan (session h calls) = None \<longrightarrow> books (session h calls) = []"
    unfolding session_def by (rule calls_keep_invariant)
  then show ?thesis
    using t no_books_no_transactions by blast
qed

lemma csv_for_format_payload:
  "csv_for_format h a format ts \<in> set (export_payloads h a ts)"
  by (simp add: csv_for_format_def export_payloads_def generateBasicCSV_lines
        generateMFCloudCSV_lines generateFreeeCSV_lines generateYayoiCSV_lines)

lemma export_with_subscription:
  assumes "startMonth \<noteq> [] \<and> endMonth \<noteq> []"
    and "period_filter startMonth endMonth (getCurrentTransactions a) \<noteq> []"
    and "subscription_plan a \<noteq> None"
  shows "\<exists>csv \<in> set (export_payloads h a
             (period_filter startMonth endMonth (getCurrentTransactions a))).
           exportToCSV h a startMonth endMonth = Download csv"
proof -
  obtain p where p: "subscription_plan a = Some p"
    using assms(3) by auto
  have "getCurrentBook a \<noteq> None"
    using assms(2) period_filter_no_book by blast
  then obtain bk where bk: "getCurrentBook a = Some bk"
    by auto
  let ?fl = "period_filter startMonth endMonth (getCurrentTransactions a)"
  have "exportToCSV h a startMonth endMonth =
      Download (csv_for_format h a
        (if or_default p ''free'' = ''basic'' \<or> or_default p ''free'' = ''professional''
         then or_default (exportFormat (book_settings bk)) ''mf'' else ''basic'') ?fl)"
    using assms(1,2) p bk by (simp add: exportToCSV_def Let_def)
  then show ?thesis
    using csv_for_format_payload by blast
qed

text \<open>
  Claim C7. Once both months of the period are chosen: if no transaction of the selected
  book falls into the period, \<open>exportToCSV\<close> ends with the no-data alert and produces no
  CSV text, in every state. If some transaction does, then in every state of a session,
  whatever the API answered to its calls, \<open>exportToCSV\<close> ends with the download of a CSV
  text that consists of the byte-order mark, the header of a dialect and one line of that
  dialect for each transaction of the period. For \<open>init\<close> loads the subscription, also when
  the request for it fails, before it loads any transaction; without a token it loads no
  book; and no other call of a session adds a book or touches the subscription.
\<close>

theorem export_empty_period_signals_no_data:
  "startMonth \<noteq> [] \<and> endMonth \<noteq> [] \<longrightarrow>
     (period_filter startMonth endMonth (getCurrentTransactions a) = [] \<longrightarrow>
        exportToCSV h a startMonth endMonth = AlertNoData)
     \<and> (period_filter startMonth endMonth (getCurrentTransactions (session h calls)) \<noteq> [] \<longrightarrow>
        (\<exists>csv \<in> set (export_payloads h (session h calls)
                  (period_filter startMonth endMonth
                     (getCurrentTransactions (session h calls)))).
           exportToCSV h (session h calls) startMonth endMonth = Download csv))"
proof (intro impI conjI)
  assume m: "startMonth \<noteq> [] \<and> endMonth \<noteq> []"
  assume "period_filter startMonth endMonth (getCurrentTransactions a) = []"
  with m show "exportToCSV h a startMonth endMonth = AlertNoData"
    by (simp add: exportToCSV_def)
next
  assume m: "startMonth \<noteq> [] \<and> endMonth \<noteq> []"
  assume n: "period_filter startMonth endMonth
      (getCurrentTransactions (session h calls)) \<noteq> []"
  then have "getCurrentTransactions (session h calls) \<noteq> []"
    by (auto simp: period_filter_def)
  then have "subscription_plan (session h calls) \<noteq> None"
    by (rule transactions_in_session)
  with m n show "\<exists>csv \<in> set (export_payloads h (session h calls)
                  (period_filter startMonth endMonth
                     (getCurrentTransactions (session h calls)))).
           exportToCSV h (session h calls) startMonth endMonth = Download csv"
    by (rule export_with_subscription)
qed

lemma number_1: "number_to_string h 1 = ''1''"
  by (simp add: number_to_string_def decimal_text_def digits.simps)

lemma number_2: "number_to_string h 2 = ''2''"
  by (simp add: number_to_string_def decimal_text_def digits.simps)

lemma example_init: "session example_host [Init example_server] = loaded_app"
  by (simp add: session_def init_def Let_def loadBooksFromAPI_def loadSubscriptionFromAPI_def
        example_server_def new_CashBookApp_def book_of_api_def or_zero_def or_default_def
        switchToBook_def loadAccountSubjectsFromAPI_def loadTransactionsFromAPI_def
        getCurrentBook_def transaction_of_api_def number_1 number_2 loaded_app_def
        loaded_income_def loaded_expense_def)

lemma loaded_app_transactions:
  "getCurrentTransactions loaded_app = [loaded_income, loaded_expense]"
  by (simp add: getCurrentTransactions_def getCurrentBook_def loaded_app_def)

lemma loaded_app_2023:
  "period_filter ''2023-01'' ''2023-12'' (getCurrentTransactions loaded_app) = []"
  by (simp add: loaded_app_transactions period_filter_def loaded_income_def loaded_expense_def)

lemma loaded_app_2024:
  "period_filter ''2024-01'' ''2024-01'' (getCurrentTransactions loaded_app) =
     [loaded_income, loaded_expense]"
  by (simp add: loaded_app_transactions period_filter_def loaded_income_def loaded_expense_def)

lemma loaded_app_export:
  "exportToCSV example_host loaded_app ''2024-01'' ''2024-01'' =
     Download (BOM @ header_basic @ concat (basic_lines example_host loaded_app
       [loaded_income, loaded_expense]))"
proof -
  have "subscription_plan loaded_app = Some ''free''"
    by (simp add: loaded_app_def)
  then show ?thesis
    by (simp add: exportToCSV_def loaded_app_2024 Let_def or_default_def csv_for_format_def
          generateBasicCSV_lines)
qed

text \<open>
  The session of the example is the page load; its state holds transactions of January
  2024 only:
  the year 2023 gives the alert, January 2024 the download of the byte-order mark, the
  basic header and the two basic lines.
\<close>

theorem export_empty_period_signals_no_data_witness:
  "exportToCSV example_host (session example_host [Init example_server])
      ''2023-01'' ''2023-12'' = AlertNoData
   \<and> exportToCSV example_host (session example_host [Init example_server])
        ''2024-01'' ''2024-01'' =
      Download (BOM @ header_basic @ concat (basic_lines example_host loaded_app
        [loaded_income, loaded_expense]))"
proof -
  note th1 = export_empty_period_signals_no_data
    [of "''2023-01''" "''2023-12''" loaded_app example_host "[Init example_server]"]
  note th2 = export_empty_period_signals_no_data
    [of "''2024-01''" "''2024-01''" loaded_app example_host "[Init example_server]"]
  have m: "''2023-01'' \<noteq> [] \<and> ''2023-12'' \<noteq> []" "''2024-01'' \<noteq> [] \<and> ''2024-01'' \<noteq> []"
    by simp_all
  have a: "exportToCSV example_host loaded_app ''2023-01'' ''2023-12'' = AlertNoData"
    using th1 [THEN mp, OF m(1), THEN conjunct1, THEN mp, OF loaded_app_2023] .
  have n: "period_filter ''2024-01'' ''2024-01''
      (getCurrentTransactions (session example_host [Init example_server])) \<noteq> []"
    by (simp add: example_init loaded_app_2024)
  have b: "\<exists>csv \<in> set (export_payloads example_host loaded_app [loaded_income, loaded_expense]).
        exportToCSV example_host loaded_app ''2024-01'' ''2024-01'' = Download csv"
    using th2 [THEN mp, OF m(2), THEN conjunct2, THEN mp, OF n]
    by (simp only: example_init loaded_app_2024)
  show ?thesis
    using a b by (simp only: example_init loaded_app_export)
qed

subsection \<open>Coupon validation\<close>

lemma validate_where_iff:
  "validate_where now (Some cd) pl c = Some True \<longleftrightarrow> code c = cd \<and> coupon_usable now pl c"
  unfolding validate_where_def coupon_usable_def
  by (cases "is_active c"; cases "valid_from c"; cases "valid_until c";
      cases "max_redemptions c"; cases "redemption_count c"; cases "plan_restriction c";
      cases pl)
     (simp_all add: sql_and_def sql_or_def sql_is_null_def)

lemma validate_where_null_code: "validate_where now None pl c \<noteq> Some True"
  by (simp add: validate_where_def sql_and_def)



lemma validate_string_request:
  "pl \<noteq> JsUndefined \<Longrightarrow>
   fst (validate now (Some \<lparr>body_code = JsString cd, body_plan = pl\<rparr>) db) =
     (case find (\<lambda>c. code c = cd \<and> coupon_usable now (to_sql pl) c) (coupons db) of
        None \<Rightarrow> InvalidOrExpired | Some c \<Rightarrow> CouponValid c)"
  by (simp add: validate_def select_first_coupon_def validate_where_iff split: option.splits)

lemma validate_frame: "snd (validate now req db) = db"
  by (simp add: validate_def select_first_coupon_def split: option.splits)













lemma validate_all_frame:
  "snd (validate_all reqs db) = db \<and>
   fst (validate_all reqs db) = map (\<lambda>(now, req). fst (validate now req db)) reqs"
proof (induction reqs)
  case Nil
  show ?case by simp
next
  case (Cons r reqs)
  obtain now req where r: "r = (now, req)" by (cases r)
  obtain resp db' where v: "validate now req db = (resp, db')" by (cases "validate now req db")
  have "db' = db" using validate_frame [of now req db] v by simp
  moreover obtain rs db'' where w: "validate_all reqs db = (rs, db'')"
    by (cases "validate_all reqs db")
  ultimately show ?case using Cons r v by simp
qed

text \<open>
  Claim C10. Validation leaves the database as it was, for every request, also one that
  fails or errs; so does any sequence of validations, and each answer of the sequence is
  the answer the request would get on the initial database: in particular the same request
  repeated \<open>n\<close> times at the same time gets the same answer \<open>n\<close> times.
\<close>

theorem validation_is_read_only:
  "snd (validate now req db) = db
   \<and> snd (validate_all reqs db) = db
   \<and> fst (validate_all reqs db) = map (\<lambda>(now, req). fst (validate now req db)) reqs
   \<and> fst (validate_all (replicate n (now, req)) db) = replicate n (fst (validate now req db))"
proof (intro conjI)
  show "snd (validate now req db) = db" by (rule validate_frame)
  show "snd (validate_all reqs db) = db" by (simp add: validate_all_frame)
  show "fst (validate_all reqs db) = map (\<lambda>(now, req). fst (validate now req db)) reqs"
    by (simp add: validate_all_frame)
  show "fst (validate_all (replicate n (now, req)) db) = replicate n (fst (validate now req db))"
    by (simp add: validate_all_frame)
qed


lemma example_usable:
  "coupon_usable ''2024-06-01 12:00:00'' (Some ''basic'') (example_coupon ''WELCOME'' (Some 1) (Some 0))"
  "\<not> coupon_usable ''2024-06-01 12:00:00'' (Some ''basic'') (example_coupon ''USED'' (Some 1) (Some 1))"
  by (simp_all add: coupon_usable_def example_coupon_def)

lemma example_coupon_code: "code (example_coupon cd cap n) = cd"
  by (simp add: example_coupon_def)

lemma example_welcome_valid:
  "fst (validate ''2024-06-01 12:00:00'' (validate_request ''WELCOME'' ''basic'') example_db) =
     CouponValid (example_coupon ''WELCOME'' (Some 1) (Some 0))"
  using example_usable
  by (simp add: validate_request_def validate_string_request example_db_def example_coupon_code)










text \<open>
  Three validations of the fresh coupon, whose cap is 1, leave the database unchanged and
  succeed three times.
\<close>

theorem validation_is_read_only_witness:
  "snd (validate_all (replicate 3 (''2024-06-01 12:00:00'', validate_request ''WELCOME'' ''basic''))
          example_db) = example_db
   \<and> fst (validate_all (replicate 3 (''2024-06-01 12:00:00'', validate_request ''WELCOME'' ''basic''))
          example_db) =
       replicate 3 (CouponValid (example_coupon ''WELCOME'' (Some 1) (Some 0)))"
  using validation_is_read_only
          [of "''2024-06-01 12:00:00''" "validate_request ''WELCOME'' ''basic''" example_db
              "replicate 3 (''2024-06-01 12:00:00'', validate_request ''WELCOME'' ''basic'')" 3]
  by (simp add: example_welcome_valid)

subsection \<open>Bearer tokens\<close>

lemma generateToken_payload:
  "generateToken c now userId =
     btoa c (JSON_stringify c (token_payload userId (now div 1000 + thirty_days)))"
  by (simp add: generateToken_def token_payload_def thirty_days_def)

lemma verifyToken_decoded:
  assumes "atob c token = Some text"
    and "JSON_parse c text = Some (JObject members)"
    and "map_of members ''exp'' = Some (JNumber (Fin e))"
    and "map_of members ''userId'' = Some u"
  shows "verifyToken c now token =
     (if e < real_of_int (now div 1000) then None else Some (Value u))"
  using assms by (simp add: verifyToken_def)

text \<open>
  Claim C9, as amended. \<open>generateToken\<close> returns the base64 encoding of the JSON text of
  the payload \<open>{userId, exp}\<close> with \<open>exp\<close> thirty days (2592000 seconds) after the second of
  issuance. For every token that decodes to an object with a member \<open>userId\<close> and a
  numeric member \<open>exp\<close>, whoever produced it, \<open>verifyToken\<close> returns the embedded user
  exactly when \<open>exp\<close> is not below the current second, and \<open>null\<close> otherwise; so a token just issued is accepted
  until its thirty days have passed. It returns \<open>null\<close> for a token that is not base64,
  whose text is not JSON, or whose payload is \<open>null\<close>.
\<close>

theorem token_issue_and_verify:
  "generateToken c now userId =
     btoa c (JSON_stringify c (token_payload userId (now div 1000 + thirty_days)))
   \<and> thirty_days = 60 * 60 * 24 * 30
   \<and> (atob c token = Some text \<and> JSON_parse c text = Some (JObject members) \<and>
      map_of members ''exp'' = Some (JNumber (Fin e)) \<and>
      map_of members ''userId'' = Some u \<longrightarrow>
        verifyToken c now' token =
          (if e < real_of_int (now' div 1000) then None else Some (Value u)))
   \<and> (atob c (generateToken c now userId) = Some text \<and>
      JSON_parse c text = Some (token_payload userId (now div 1000 + thirty_days)) \<longrightarrow>
        verifyToken c now' (generateToken c now userId) =
          (if now div 1000 + thirty_days < now' div 1000 then None
           else Some (Value (JNumber (Fin (of_int userId))))))
   \<and> (atob c token = None \<longrightarrow> verifyToken c now' token = None)
   \<and> (atob c token = Some text \<and> JSON_parse c text = None \<longrightarrow>
        verifyToken c now' token = None)
   \<and> (atob c token = Some text \<and> JSON_parse c text = Some JNull \<longrightarrow>
        verifyToken c now' token = None)"
proof (intro conjI impI)
  show "generateToken c now userId =
     btoa c (JSON_stringify c (token_payload userId (now div 1000 + thirty_days)))"
    by (rule generateToken_payload)
  show "thirty_days = 60 * 60 * 24 * 30"
    by (simp add: thirty_days_def)
next
  assume "atob c token = Some text \<and> JSON_parse c text = Some (JObject members) \<and>
      map_of members ''exp'' = Some (JNumber (Fin e)) \<and>
      map_of members ''userId'' = Some u"
  then show "verifyToken c now' token =
          (if e < real_of_int (now' div 1000) then None else Some (Value u))"
    by (simp add: verifyToken_decoded)
next
  assume "atob c (generateToken c now userId) = Some text \<and>
      JSON_parse c text = Some (token_payload userId (now div 1000 + thirty_days))"
  then have a: "atob c (generateToken c now userId) = Some text"
    and p: "JSON_parse c text =
      Some (JObject [(''userId'', JNumber (Fin (of_int userId))),
                     (''exp'', JNumber (Fin (of_int (now div 1000 + thirty_days))))])"
    by (simp_all add: token_payload_def)
  have "verifyToken c now' (generateToken c now userId) =
      (if real_of_int (now div 1000 + thirty_days) < real_of_int (now' div 1000) then None
       else Some (Value (JNumber (Fin (of_int userId)))))"
    by (rule verifyToken_decoded [OF a p]) simp_all
  then show "verifyToken c now' (generateToken c now userId) =
          (if now div 1000 + thirty_days < now' div 1000 then None
           else Some (Value (JNumber (Fin (of_int userId)))))"
    by (simp only: of_int_less_iff)
next
  assume "atob c token = None"
  then show "verifyToken c now' token = None"
    by (simp add: verifyToken_def)
next
  assume "atob c token = Some text \<and> JSON_parse c text = None"
  then show "verifyToken c now' token = None"
    by (simp add: verifyToken_def)
next
  assume "atob c token = Some text \<and> JSON_parse c text = Some JNull"
  then show "verifyToken c now' token = None"
    by (simp add: verifyToken_def)
qed

lemma example_generate: "generateToken example_codec 1700000000000 42 = example_token"
  by (simp add: generateToken_def example_codec_def example_stringify_def member_text_def
        decimal_text_def digits.simps dquote_def example_btoa_def b64_alphabet_def
        example_token_def)

lemma example_atob_token: "atob example_codec example_token = Some example_token_text"
  by (simp add: example_codec_def example_token_def example_token_text_def example_atob_def
        b64_value_def char_of_def dquote_def bit_Suc_0_iff)

lemma example_parse_token:
  "JSON_parse example_codec example_token_text = Some (token_payload 42 1702592000)"
  by (simp add: example_codec_def example_token_text_def example_parse_def parse_member_def
        decimal_number_def digit_value_def token_payload_def dquote_def)

lemma example_bad_base64: "atob example_codec ''@@@@'' = None"
  by (simp add: example_codec_def example_atob_def b64_value_def)

text \<open>
  The token of user 42 issued at 1700000000000 ms is accepted 500 seconds later and
  during the last second before 1702592001000 ms, rejected from then on; a text that is
  not base64 is rejected.
\<close>

theorem token_issue_and_verify_witness:
  "generateToken example_codec 1700000000000 42 = example_token
   \<and> verifyToken example_codec 1700000500000 example_token = Some (Value (JNumber (Fin 42)))
   \<and> verifyToken example_codec 1702592000999 example_token = Some (Value (JNumber (Fin 42)))
   \<and> verifyToken example_codec 1702592001000 example_token = None
   \<and> verifyToken example_codec 1700000500000 ''@@@@'' = None"
proof -
  have d: "atob example_codec (generateToken example_codec 1700000000000 42)
             = Some example_token_text
           \<and> JSON_parse example_codec example_token_text
             = Some (token_payload 42 (1700000000000 div 1000 + thirty_days))"
    by (simp add: example_generate example_atob_token example_parse_token thirty_days_def)
  show ?thesis
    using token_issue_and_verify
            [of example_codec 1700000000000 42 "''@@@@''" example_token_text "[]" 0 JNull
                1700000500000]
          token_issue_and_verify
            [of example_codec 1700000000000 42 "''@@@@''" example_token_text "[]" 0 JNull
                1702592000999]
          token_issue_and_verify
            [of example_codec 1700000000000 42 "''@@@@''" example_token_text "[]" 0 JNull
                1702592001000]
          d example_bad_base64
    by (simp add: example_generate thirty_days_def)
qed

text \<open>
  The claim as stated fails for a malformed token: the base64 encoding of the JSON text
  \<open>{"userId":1}\<close>, which has no \<open>exp\<close>, is not rejected; \<open>verifyToken\<close> returns user 1.
\<close>

theorem token_without_expiry_counterexample:
  "atob example_codec no_expiry_token = Some no_expiry_text
   \<and> JSON_parse example_codec no_expiry_text = Some (JObject [(''userId'', JNumber (Fin 1))])
   \<and> claimed_verifyToken example_codec 1700000000000 no_expiry_token = None
   \<and> verifyToken example_codec 1700000000000 no_expiry_token = Some (Value (JNumber (Fin 1)))"
proof -
  have a: "atob example_codec no_expiry_token = Some no_expiry_text"
    by (simp add: example_codec_def no_expiry_token_def no_expiry_text_def example_atob_def
        b64_value_def char_of_def dquote_def bit_Suc_0_iff)
  have p: "JSON_parse example_codec no_expiry_text = Some (JObject [(''userId'', JNumber (Fin 1))])"
    by (simp add: example_codec_def no_expiry_text_def example_parse_def parse_member_def
        decimal_number_def digit_value_def dquote_def)
  show ?thesis
    by (simp add: a p claimed_verifyToken_def verifyToken_def)
qed

end
